theory Spec2Isabelle
  imports Complex_Main "HOL-Library.Multiset"
begin

section \<open>JavaScript values used by the compression engine and the retrieval service\<close>

text \<open>
  Strings are lists of 8-bit code units (the Latin-1 range of JavaScript's UTF-16 code
  units). Numbers are real numbers, with NaN and the two infinities as separate values:
  the source divides by a set size and by the configured recency window, and either can
  be zero. Counts (the compression threshold and the limits of retrieval) are natural
  numbers, confidences and instants (milliseconds since the epoch) are integers. An
  exception is a value of type \<open>error\<close>, and a computation that may raise one returns
  a sum with the exception on the left.
\<close>

datatype js_number = NaN | PosInfinity | NegInfinity | Finite real

datatype error = TypeError string | RangeError string | GraphError string

text \<open>\<^verbatim>\<open>a / b\<close> on two non-negative sizes.\<close>

definition js_div_size :: "nat \<Rightarrow> nat \<Rightarrow> js_number" where
  "js_div_size a b =
     (if b = 0 then (if a = 0 then NaN else PosInfinity)
      else Finite (real a / real b))"

text \<open>\<^verbatim>\<open>a / b\<close> on two finite numbers.\<close>

definition js_divide :: "real \<Rightarrow> real \<Rightarrow> js_number" where
  "js_divide a b =
     (if b = 0 then (if a = 0 then NaN else if a > 0 then PosInfinity else NegInfinity)
      else Finite (a / b))"

fun js_neg :: "js_number \<Rightarrow> js_number" where
  "js_neg NaN = NaN"
| "js_neg PosInfinity = NegInfinity"
| "js_neg NegInfinity = PosInfinity"
| "js_neg (Finite x) = Finite (- x)"

fun js_plus :: "js_number \<Rightarrow> js_number \<Rightarrow> js_number" where
  "js_plus (Finite a) (Finite b) = Finite (a + b)"
| "js_plus NaN y = NaN"
| "js_plus x NaN = NaN"
| "js_plus PosInfinity NegInfinity = NaN"
| "js_plus NegInfinity PosInfinity = NaN"
| "js_plus PosInfinity y = PosInfinity"
| "js_plus x PosInfinity = PosInfinity"
| "js_plus NegInfinity y = NegInfinity"
| "js_plus x NegInfinity = NegInfinity"

definition js_minus :: "js_number \<Rightarrow> js_number \<Rightarrow> js_number" where
  "js_minus x y = js_plus x (js_neg y)"

text \<open>\<^verbatim>\<open>w * x\<close> for a finite factor \<open>w\<close>: zero times an infinity is NaN.\<close>

fun js_scale :: "real \<Rightarrow> js_number \<Rightarrow> js_number" where
  "js_scale w (Finite x) = Finite (w * x)"
| "js_scale w NaN = NaN"
| "js_scale w PosInfinity = (if w = 0 then NaN else if w > 0 then PosInfinity else NegInfinity)"
| "js_scale w NegInfinity = (if w = 0 then NaN else if w > 0 then NegInfinity else PosInfinity)"

text \<open>\<^verbatim>\<open>Math.max(0, x)\<close>\<close>

fun js_max0 :: "js_number \<Rightarrow> js_number" where
  "js_max0 (Finite x) = Finite (max 0 x)"
| "js_max0 NaN = NaN"
| "js_max0 PosInfinity = PosInfinity"
| "js_max0 NegInfinity = Finite 0"

text \<open>
  Comparisons of a number with a finite one: every comparison with NaN is false.
\<close>

fun js_ge :: "js_number \<Rightarrow> real \<Rightarrow> bool" where
  "js_ge (Finite x) t = (t \<le> x)"
| "js_ge NaN t = False"
| "js_ge PosInfinity t = True"
| "js_ge NegInfinity t = False"

fun js_gt :: "js_number \<Rightarrow> real \<Rightarrow> bool" where
  "js_gt (Finite x) t = (t < x)"
| "js_gt NaN t = False"
| "js_gt PosInfinity t = True"
| "js_gt NegInfinity t = False"

text \<open>
  \<^verbatim>\<open>new Date(b) - new Date(a)\<close> in milliseconds: NaN when one of the two timestamps is
  absent.
\<close>

definition date_diff :: "int option \<Rightarrow> int option \<Rightarrow> js_number" where
  "date_diff b a =
     (case b of
        None \<Rightarrow> NaN
      | Some tb \<Rightarrow> (case a of None \<Rightarrow> NaN | Some ta \<Rightarrow> Finite (real_of_int (tb - ta))))"

definition ms_per_day :: real where
  "ms_per_day = 1000 * 60 * 60 * 24"

text \<open>\<^verbatim>\<open>Math.round\<close>: to the nearest integer, a tie towards plus infinity.\<close>

definition js_round :: "real \<Rightarrow> int" where
  "js_round x = \<lfloor>x + 1 / 2\<rfloor>"

text \<open>
  \<^verbatim>\<open>Array.prototype.sort\<close> with a comparator. The sort is stable, and \<open>a\<close> is placed
  after \<open>b\<close> exactly when the comparator's value at \<open>(a, b)\<close> is positive; a NaN
  value counts as zero. For a comparator that orders the elements consistently every
  stable sort returns the list below; for an inconsistent one ECMAScript leaves the
  order to the implementation, and the insertion sort below is one such order.
\<close>

fun insert_sorted :: "('a \<Rightarrow> 'a \<Rightarrow> js_number) \<Rightarrow> 'a \<Rightarrow> 'a list \<Rightarrow> 'a list" where
  "insert_sorted cmp x [] = [x]"
| "insert_sorted cmp x (y # ys) =
     (if js_gt (cmp x y) 0 then y # insert_sorted cmp x ys else x # y # ys)"

definition js_sort :: "('a \<Rightarrow> 'a \<Rightarrow> js_number) \<Rightarrow> 'a list \<Rightarrow> 'a list" where
  "js_sort cmp xs = foldr (insert_sorted cmp) xs []"

text \<open>\<^verbatim>\<open>try { body } catch (error) { handler }\<close>, an exception being the value \<open>Inl\<close>.\<close>

definition try_catch :: "error + 'a \<Rightarrow> (error \<Rightarrow> error + 'a) \<Rightarrow> error + 'a" where
  "try_catch body handler = (case body of Inl e \<Rightarrow> handler e | Inr v \<Rightarrow> Inr v)"

fun message :: "error \<Rightarrow> string" where
  "message (TypeError m) = m"
| "message (RangeError m) = m"
| "message (GraphError m) = m"

text \<open>A non-negative integer in a template string: its decimal digits.\<close>

fun string_of_nat :: "nat \<Rightarrow> string" where
  "string_of_nat n =
     (if n < 10 then [char_of (48 + n)]
      else string_of_nat (n div 10) @ [char_of (48 + n mod 10)])"

declare string_of_nat.simps [simp del]

subsection \<open>Characters: \<^verbatim>\<open>\w\<close>, \<^verbatim>\<open>\s\<close> and \<^verbatim>\<open>toLowerCase\<close>\<close>

definition is_word_char :: "char \<Rightarrow> bool" where
  "is_word_char c =
     (let n = (of_char c :: nat)
      in (48 \<le> n \<and> n \<le> 57) \<or> (65 \<le> n \<and> n \<le> 90) \<or> n = 95 \<or> (97 \<le> n \<and> n \<le> 122))"

definition is_space_char :: "char \<Rightarrow> bool" where
  "is_space_char c =
     (let n = (of_char c :: nat) in (9 \<le> n \<and> n \<le> 13) \<or> n = 32 \<or> n = 160)"

definition lower_char :: "char \<Rightarrow> char" where
  "lower_char c =
     (let n = (of_char c :: nat)
      in if (65 \<le> n \<and> n \<le> 90) \<or> (192 \<le> n \<and> n \<le> 222 \<and> n \<noteq> 215)
         then char_of (n + 32) else c)"

definition toLowerCase :: "string \<Rightarrow> string" where
  "toLowerCase s = map lower_char s"

text \<open>
  \<^verbatim>\<open>s.split(/X+/)\<close> for a class \<open>X\<close> of separator characters: the pieces between
  maximal runs of separators. A string that starts (ends) with a separator yields an
  empty first (last) piece, and the empty string yields one empty piece.
\<close>

function split_runs :: "(char \<Rightarrow> bool) \<Rightarrow> string \<Rightarrow> string list" where
  "split_runs sep s =
     (case dropWhile (\<lambda>c. \<not> sep c) s of
        [] \<Rightarrow> [takeWhile (\<lambda>c. \<not> sep c) s]
      | c # rest \<Rightarrow> takeWhile (\<lambda>c. \<not> sep c) s # split_runs sep (dropWhile sep rest))"
  by pat_completeness auto
termination
proof (relation "measure (\<lambda>(sep, s). length s)")
  show "wf (measure (\<lambda>(sep :: char \<Rightarrow> bool, s :: string). length s))" by simp
next
  fix sep :: "char \<Rightarrow> bool" and s :: string and c rest
  assume "dropWhile (\<lambda>c. \<not> sep c) s = c # rest"
  then have "length rest < length s"
    by (metis length_dropWhile_le length_Cons less_Suc_eq_le not_less)
  moreover have "length (dropWhile sep rest) \<le> length rest"
    by (rule length_dropWhile_le)
  ultimately show "((sep, dropWhile sep rest), (sep, s)) \<in> measure (\<lambda>(sep, s). length s)"
    by simp
qed

declare split_runs.simps [simp del]

text \<open>\<^verbatim>\<open>s.split(/\W+/)\<close> and \<^verbatim>\<open>s.split(/\s+/)\<close>\<close>

definition split_nonword :: "string \<Rightarrow> string list" where
  "split_nonword s = split_runs (\<lambda>c. \<not> is_word_char c) s"

definition split_space :: "string \<Rightarrow> string list" where
  "split_space s = split_runs is_space_char s"

text \<open>\<^verbatim>\<open>s.includes(k)\<close>: \<open>k\<close> occurs in \<open>s\<close> as a contiguous substring.\<close>

fun starts_with :: "string \<Rightarrow> string \<Rightarrow> bool" where
  "starts_with s [] = True"
| "starts_with [] (k # ks) = False"
| "starts_with (c # cs) (k # ks) = (c = k \<and> starts_with cs ks)"

fun js_includes :: "string \<Rightarrow> string \<Rightarrow> bool" where
  "js_includes [] k = (k = [])"
| "js_includes (c # cs) k = (starts_with (c # cs) k \<or> js_includes cs k)"

section \<open>Data model\<close>

text \<open>
  An observation as the source reads it: \<^verbatim>\<open>content\<close>, \<^verbatim>\<open>timestamp\<close>, \<^verbatim>\<open>confidence\<close> and
  \<^verbatim>\<open>category\<close> may be absent (\<^verbatim>\<open>undefined\<close>), and the source has a branch for each
  (\<^verbatim>\<open>obs.confidence || 3\<close>, \<^verbatim>\<open>obs.timestamp ? ... : 0\<close>, \<^verbatim>\<open>category || 'general'\<close>,
  \<^verbatim>\<open>obs.content && ...\<close>). A timestamp is the instant it parses to, in milliseconds
  since the epoch; the model covers timestamps that are absent or that parse.
\<close>

record weights =
  recency :: real
  confidence :: real
  relevance :: real

text \<open>The \<^verbatim>\<open>scores\<close> of a scored entity.\<close>

record entity_scores =
  relevance :: real
  recency :: js_number
  confidence :: real

text \<open>The \<^verbatim>\<open>attributes\<close> of a relation.\<close>

record attributes =
  time :: "int option"
  is_critical :: bool

record observation =
  content :: "string option"
  timestamp :: "int option"
  confidence :: "int option"
  category :: "string option"
  is_critical :: bool

record compression_options =
  similarityThreshold :: real
  maxObservationAge :: real
  preserveCritical :: bool
  minConfidence :: int

text \<open>The engine: \<^verbatim>\<open>this.compressionThreshold\<close> and \<^verbatim>\<open>this.options\<close>.\<close>

record compression_engine =
  compressionThreshold :: nat
  options :: compression_options

definition default_compression_options :: compression_options where
  "default_compression_options =
     \<lparr>similarityThreshold = 6 / 10, maxObservationAge = 7,
      preserveCritical = True, minConfidence = 3\<rparr>"

definition default_engine :: compression_engine where
  "default_engine = \<lparr>compressionThreshold = 5, options = default_compression_options\<rparr>"

text \<open>An item of \<^verbatim>\<open>pendingObservations\<close>.\<close>

record pending =
  entityName :: string
  entityType :: string
  observation :: observation

text \<open>A value of the \<^verbatim>\<open>groups\<close> object of \<^verbatim>\<open>_groupObservations\<close>.\<close>

record observation_group =
  entityName :: string
  entityType :: string
  category :: string
  observations :: "observation list"

text \<open>
  The object a cluster is compressed into: an observation with its
  \<^verbatim>\<open>source_observations\<close>, and the \<^verbatim>\<open>time_window\<close> that temporal compression adds.
\<close>

record compressed_observation = observation +
  source_observations :: "string option list"
  time_window :: "string option"

text \<open>An input of temporal compression: an observation that carries its entity.\<close>

record temporal_observation = observation +
  entityName :: string
  entityType :: "string option"

text \<open>
  The \<^verbatim>\<open>Date\<close> operations of the runtime that bucketing uses, on instants in
  milliseconds: local midnight (\<^verbatim>\<open>setHours(0, 0, 0, 0)\<close>), the local day of the month
  (\<^verbatim>\<open>getDate\<close>), \<^verbatim>\<open>setDate\<close>, and the date part of \<^verbatim>\<open>toISOString\<close>. They depend on
  the calendar and the time zone of the host and are parameters of the model.
\<close>

record date_env =
  setHours0 :: "int \<Rightarrow> int"
  getDate :: "int \<Rightarrow> int"
  setDate :: "int \<Rightarrow> int \<Rightarrow> int"
  toISODate :: "int \<Rightarrow> string"

text \<open>
  A relation. Its fields \<^verbatim>\<open>from\<close> and \<^verbatim>\<open>to\<close> are written \<open>rel_from\<close> and \<open>rel_to\<close>.
\<close>

record relation =
  rel_from :: string
  relationType :: string
  rel_to :: string
  attributes :: "attributes option"

record scored_relation = relation +
  score :: js_number

text \<open>
  An entity, over the type of its observations: retrieval replaces the observations of
  an entity by scored ones.
\<close>

record 'o entity =
  name :: string
  entityType :: string
  observations :: "'o list option"

record 'o scored_entity = "'o entity" +
  score :: js_number
  scores :: entity_scores

record scored_observation = observation +
  score :: js_number

record retrieval_options =
  maxEntities :: nat
  maxObservationsPerEntity :: nat
  maxRelations :: nat
  minConfidence :: int
  recencyWindow :: real
  weights :: weights

text \<open>The \<^verbatim>\<open>options\<close> argument of a call: the options it overrides.\<close>

record option_overrides =
  maxEntities :: "nat option"
  maxObservationsPerEntity :: "nat option"
  maxRelations :: "nat option"
  minConfidence :: "int option"
  recencyWindow :: "real option"
  weights :: "weights option"

definition default_retrieval_options :: retrieval_options where
  "default_retrieval_options =
     \<lparr>retrieval_options.maxEntities = 10,
      retrieval_options.maxObservationsPerEntity = 5,
      retrieval_options.maxRelations = 20,
      retrieval_options.minConfidence = 3,
      retrieval_options.recencyWindow = 30,
      retrieval_options.weights =
        \<lparr>weights.recency = 3 / 10, weights.confidence = 3 / 10, weights.relevance = 4 / 10\<rparr>\<rparr>"

definition no_overrides :: option_overrides where
  "no_overrides =
     \<lparr>maxEntities = None, maxObservationsPerEntity = None, maxRelations = None,
      minConfidence = None, recencyWindow = None, weights = None\<rparr>"

text \<open>The graph collaborator: each operation returns a value or throws.\<close>

record search_results =
  entities :: "observation entity list option"

record graph =
  entities :: "observation entity list option"
  relations :: "relation list option"

record knowledge_graph =
  getEntity :: "string \<Rightarrow> error + observation entity option"
  search :: "string \<Rightarrow> error + search_results option"
  getEntityRelations :: "string \<Rightarrow> error + relation list"
  exportGraph :: "error + graph option"

text \<open>
  The conversation context: a string, an object (given by its \<^verbatim>\<open>JSON.stringify\<close> text),
  or \<^verbatim>\<open>undefined\<close>.
\<close>

datatype conversation_context = ContextString string | ContextObject string | ContextUndefined

text \<open>The results of the four retrieval operations.\<close>

record retrieval_result =
  entities :: "scored_observation scored_entity list"
  relations :: "scored_relation list"
  context_info :: "(string list \<times> retrieval_options) option"
  error :: "string option"

record category_result =
  category :: string
  entities :: "scored_observation entity list"
  error :: "string option"

record critical_result =
  entities :: "observation entity list"
  relations :: "relation list"
  error :: "string option"

record time_range =
  startDate :: "int option"
  endDate :: "int option"

record time_range_result =
  timeRange :: time_range
  entities :: "observation entity list"
  relations :: "relation list"
  error :: "string option"

section \<open>Compression engine\<close>

subsection \<open>\<^verbatim>\<open>_calculateSimilarity\<close>\<close>

definition tokens_of :: "string \<Rightarrow> string list" where
  "tokens_of s = filter (\<lambda>t. length t > 0) (split_nonword (toLowerCase s))"

text \<open>
  Calling \<^verbatim>\<open>toLowerCase\<close> on an absent content raises a TypeError, first for
  \<^verbatim>\<open>contentA\<close>, then for \<^verbatim>\<open>contentB\<close>.
\<close>

definition calculateSimilarity :: "string option \<Rightarrow> string option \<Rightarrow> error + js_number" where
  "calculateSimilarity contentA contentB =
     (case contentA of
        None \<Rightarrow> Inl (TypeError ''contentA.toLowerCase'')
      | Some a \<Rightarrow>
         (case contentB of
            None \<Rightarrow> Inl (TypeError ''contentB.toLowerCase'')
          | Some b \<Rightarrow>
             (let tokensA = tokens_of a;
                  tokensB = tokens_of b;
                  setA = set tokensA;
                  setB = set tokensB;
                  intersection = Set.filter (\<lambda>x. x \<in> setB) setA;
                  union = setA \<union> setB
              in Inr (js_div_size (card intersection) (card union)))))"

subsection \<open>\<^verbatim>\<open>_clusterSimilarObservations\<close>\<close>

text \<open>The inner loop over \<open>j\<close>, from \<open>i + 1\<close>, with the cluster and the processed set.\<close>

function cluster_scan ::
  "compression_engine \<Rightarrow> observation list \<Rightarrow> observation \<Rightarrow> nat \<Rightarrow> observation list \<Rightarrow> nat set
     \<Rightarrow> error + (observation list \<times> nat set)" where
  "cluster_scan eng obsList obsA j cluster processed =
     (if j < length obsList then
        (if j \<in> processed then cluster_scan eng obsList obsA (j + 1) cluster processed
         else
           (let obsB = obsList ! j
            in case calculateSimilarity (content obsA) (content obsB) of
                 Inl e \<Rightarrow> Inl e
               | Inr similarity \<Rightarrow>
                   if js_ge similarity (similarityThreshold (options eng))
                   then cluster_scan eng obsList obsA (j + 1) (cluster @ [obsB]) (insert j processed)
                   else cluster_scan eng obsList obsA (j + 1) cluster processed))
      else Inr (cluster, processed))"
  by pat_completeness auto
termination
  by (relation "measure (\<lambda>(eng, obsList, obsA, j, cluster, processed). length obsList - j)") auto

declare cluster_scan.simps [simp del]

text \<open>The outer loop over \<open>i\<close>.\<close>

function cluster_loop ::
  "compression_engine \<Rightarrow> observation list \<Rightarrow> nat \<Rightarrow> observation list list \<Rightarrow> nat set
     \<Rightarrow> error + observation list list" where
  "cluster_loop eng obsList i clusters processed =
     (if i < length obsList then
        (if i \<in> processed then cluster_loop eng obsList (i + 1) clusters processed
         else
           (let obsA = obsList ! i
            in case cluster_scan eng obsList obsA (i + 1) [obsA] (insert i processed) of
                 Inl e \<Rightarrow> Inl e
               | Inr (cluster, processed') \<Rightarrow>
                   cluster_loop eng obsList (i + 1)
                     (if length cluster > 1 then clusters @ [cluster] else clusters) processed'))
      else Inr clusters)"
  by pat_completeness auto
termination
  by (relation "measure (\<lambda>(eng, obsList, i, clusters, processed). length obsList - i)") auto

declare cluster_loop.simps [simp del]

definition clusterSimilarObservations ::
  "compression_engine \<Rightarrow> observation list \<Rightarrow> error + observation list list" where
  "clusterSimilarObservations eng obsList = cluster_loop eng obsList 0 [] {}"

text \<open>
  The clusterer as the specification words it: the first observation not yet assigned
  seeds a cluster, every later unassigned observation similar to the seed joins it, and
  the scan goes on with the observations left over; a seed alone is dropped.
\<close>

definition similar_to_seed :: "compression_engine \<Rightarrow> observation \<Rightarrow> observation \<Rightarrow> bool" where
  "similar_to_seed eng seed ob =
     (case calculateSimilarity (content seed) (content ob) of
        Inl e \<Rightarrow> False
      | Inr s \<Rightarrow> js_ge s (similarityThreshold (options eng)))"

fun greedy_seed_clusters :: "('a \<Rightarrow> 'a \<Rightarrow> bool) \<Rightarrow> 'a list \<Rightarrow> 'a list list" where
  "greedy_seed_clusters sim [] = []"
| "greedy_seed_clusters sim (seed # later) =
     (let members = filter (sim seed) later;
          left = filter (\<lambda>x. \<not> sim seed x) later
      in (if members = [] then [] else [seed # members]) @ greedy_seed_clusters sim left)"

subsection \<open>\<^verbatim>\<open>_groupObservations\<close>\<close>

text \<open>
  The \<^verbatim>\<open>groups\<close> object is the list of its entries in insertion order, which is the
  order of \<^verbatim>\<open>Object.entries\<close>: a group key contains a colon, so it is never an array
  index. The clock is read once per call (\<open>now\<close>, in milliseconds).
\<close>

type_synonym groups = "(string \<times> observation_group) list"

text \<open>\<^verbatim>\<open>observation.confidence < minConfidence\<close>: false for an absent confidence.\<close>

definition confidence_below :: "int option \<Rightarrow> int \<Rightarrow> bool" where
  "confidence_below c m = (case c of None \<Rightarrow> False | Some v \<Rightarrow> v < m)"

definition ageInDays :: "int \<Rightarrow> int option \<Rightarrow> js_number" where
  "ageInDays now ts =
     (case date_diff (Some now) ts of
        Finite d \<Rightarrow> Finite (d / ms_per_day)
      | other \<Rightarrow> other)"

text \<open>\<^verbatim>\<open>observation.category || 'general'\<close>: an absent or empty category is falsy.\<close>

definition category_or_general :: "string option \<Rightarrow> string" where
  "category_or_general c =
     (case c of None \<Rightarrow> ''general'' | Some s \<Rightarrow> if s = [] then ''general'' else s)"

text \<open>\<^verbatim>\<open>groups[groupKey].observations.push(observation)\<close>\<close>

fun push_observation :: "string \<Rightarrow> observation \<Rightarrow> groups \<Rightarrow> groups" where
  "push_observation groupKey ob [] = []"
| "push_observation groupKey ob ((k, g) # rest) =
     (if k = groupKey
      then (k, g\<lparr>observation_group.observations := observation_group.observations g @ [ob]\<rparr>) # rest
      else (k, g) # push_observation groupKey ob rest)"

fun group_loop :: "compression_engine \<Rightarrow> int \<Rightarrow> pending list \<Rightarrow> groups \<Rightarrow> groups" where
  "group_loop eng now [] groups = groups"
| "group_loop eng now (item # rest) groups =
     (let ob = observation item
      in if preserveCritical (options eng) \<and> is_critical ob then group_loop eng now rest groups
         else if confidence_below (confidence ob) (compression_options.minConfidence (options eng))
           then group_loop eng now rest groups
         else if js_gt (ageInDays now (timestamp ob)) (maxObservationAge (options eng))
           then group_loop eng now rest groups
         else
           (let groupKey = pending.entityName item @ '':'' @ category_or_general (observation.category ob);
                groups' =
                  (if map_of groups groupKey = None
                   then groups @
                     [(groupKey,
                       \<lparr>observation_group.entityName = pending.entityName item,
                        observation_group.entityType = pending.entityType item,
                        observation_group.category = category_or_general (observation.category ob),
                        observation_group.observations = []\<rparr>)]
                   else groups)
            in group_loop eng now rest (push_observation groupKey ob groups')))"

definition groupObservations :: "compression_engine \<Rightarrow> int \<Rightarrow> pending list \<Rightarrow> groups" where
  "groupObservations eng now pendingObservations = group_loop eng now pendingObservations []"

subsection \<open>\<^verbatim>\<open>_getMostCommon\<close> and \<^verbatim>\<open>_generateSummary\<close>\<close>

text \<open>
  The \<^verbatim>\<open>counts\<close> object is the list of its entries in insertion order. (An object
  lists keys that are array indices first and inherits the members of
  \<^verbatim>\<open>Object.prototype\<close>; the model is that of words that are neither.)
\<close>

fun count_item :: "string \<Rightarrow> (string \<times> nat) list \<Rightarrow> (string \<times> nat) list" where
  "count_item item [] = [(item, 1)]"
| "count_item item ((k, c) # rest) =
     (if k = item then (k, c + 1) # rest else (k, c) # count_item item rest)"

definition getMostCommon :: "string list \<Rightarrow> string option" where
  "getMostCommon arr =
     (if arr = [] then None
      else
        (let counts = foldl (\<lambda>cs item. count_item item cs) [] arr
         in fst (foldl (\<lambda>(maxItem, maxCount) (item, count).
                          if count > maxCount then (Some item, count) else (maxItem, maxCount))
                   (None, 0) counts)))"

text \<open>\<^verbatim>\<open>x || fallback\<close> on a string or null.\<close>

definition or_else :: "string option \<Rightarrow> string \<Rightarrow> string" where
  "or_else x fallback = (case x of None \<Rightarrow> fallback | Some s \<Rightarrow> if s = [] then fallback else s)"

text \<open>
  The loop that collects subjects, actions and objects. \<^verbatim>\<open>content.split\<close> on an absent
  content raises a TypeError.
\<close>

fun extract_loop ::
  "observation list \<Rightarrow> string list \<times> string list \<times> string list
     \<Rightarrow> error + (string list \<times> string list \<times> string list)" where
  "extract_loop [] acc = Inr acc"
| "extract_loop (ob # rest) (subjects, actions, objects) =
     (case content ob of
        None \<Rightarrow> Inl (TypeError ''content.split'')
      | Some c \<Rightarrow>
          (let words = filter (\<lambda>w. length w > 0) (split_nonword c)
           in if length words > 2 then
                extract_loop rest
                  (if length (words ! 0) > 3 then subjects @ [words ! 0] else subjects,
                   if length (words ! 1) > 3 then actions @ [words ! 1] else actions,
                   objects @ map (nth words)
                     (filter (\<lambda>i. length (words ! i) > 3) [2..<min 5 (length words)]))
              else extract_loop rest (subjects, actions, objects)))"

definition generateSummary :: "observation list \<Rightarrow> error + string" where
  "generateSummary cluster =
     (case extract_loop cluster ([], [], []) of
        Inl e \<Rightarrow> Inl e
      | Inr (subjects, actions, objects) \<Rightarrow>
          (let mainSubject = or_else (getMostCommon subjects) ''Subject'';
               mainAction = or_else (getMostCommon actions) ''performed action'';
               mainObject = or_else (getMostCommon objects) ''object'';
               summary = mainSubject @ '' '' @ mainAction @ '' '' @ mainObject
           in Inr (if length cluster > 1
                   then summary @ '' (observed '' @ string_of_nat (length cluster) @ '' times)''
                   else summary)))"

subsection \<open>\<^verbatim>\<open>_compressCluster\<close>\<close>

text \<open>The comparator \<^verbatim>\<open>(a, b) => new Date(b.timestamp) - new Date(a.timestamp)\<close>.\<close>

definition newest_first :: "observation \<Rightarrow> observation \<Rightarrow> js_number" where
  "newest_first a b = date_diff (timestamp b) (timestamp a)"

text \<open>\<^verbatim>\<open>obs.confidence || 3\<close>: an absent confidence and the confidence 0 are falsy.\<close>

definition confidence_or :: "int \<Rightarrow> observation \<Rightarrow> int" where
  "confidence_or d ob = (case confidence ob of None \<Rightarrow> d | Some c \<Rightarrow> if c = 0 then d else c)"

text \<open>The body of the \<^verbatim>\<open>try\<close> block. The entity name is passed and not used.\<close>

definition compressCluster_body ::
  "observation list \<Rightarrow> string \<Rightarrow> string \<Rightarrow> error + compressed_observation" where
  "compressCluster_body cluster ename cat =
     (let sortedCluster = js_sort newest_first cluster
      in case sortedCluster of
           [] \<Rightarrow> Inl (TypeError ''sortedCluster[0].timestamp'')
         | newest # others \<Rightarrow>
             (let ts = timestamp newest;
                  avgConfidence =
                    js_round (real_of_int (foldl (\<lambda>sum ob. sum + confidence_or 3 ob) 0 sortedCluster)
                              / real (length sortedCluster))
              in case generateSummary sortedCluster of
                   Inl e \<Rightarrow> Inl e
                 | Inr summary \<Rightarrow>
                     Inr \<lparr>content = Some summary,
                          timestamp = ts,
                          confidence = Some avgConfidence,
                          observation.category = Some cat,
                          is_critical = list_ex (\<lambda>ob. is_critical ob = True) sortedCluster,
                          source_observations = map content sortedCluster,
                          time_window = None\<rparr>))"

text \<open>The \<^verbatim>\<open>catch\<close> block returns \<^verbatim>\<open>null\<close>.\<close>

definition compressCluster ::
  "observation list \<Rightarrow> string \<Rightarrow> string \<Rightarrow> compressed_observation option" where
  "compressCluster cluster ename cat =
     (case compressCluster_body cluster ename cat of Inl e \<Rightarrow> None | Inr c \<Rightarrow> Some c)"

subsection \<open>\<^verbatim>\<open>compressObservations\<close>\<close>

text \<open>The loop over the clusters of one group.\<close>

fun compress_clusters ::
  "compression_engine \<Rightarrow> observation_group \<Rightarrow> observation list list
     \<Rightarrow> compressed_observation list \<Rightarrow> compressed_observation list" where
  "compress_clusters eng g [] compressedResults = compressedResults"
| "compress_clusters eng g (cluster # rest) compressedResults =
     (if length cluster \<ge> compressionThreshold eng then
        (case compressCluster cluster (observation_group.entityName g) (observation_group.category g) of
           Some compressed \<Rightarrow> compress_clusters eng g rest (compressedResults @ [compressed])
         | None \<Rightarrow> compress_clusters eng g rest compressedResults)
      else compress_clusters eng g rest compressedResults)"

text \<open>The loop over \<^verbatim>\<open>Object.entries(groupedObservations)\<close>.\<close>

fun compress_groups ::
  "compression_engine \<Rightarrow> groups \<Rightarrow> compressed_observation list
     \<Rightarrow> error + compressed_observation list" where
  "compress_groups eng [] compressedResults = Inr compressedResults"
| "compress_groups eng ((key, g) # rest) compressedResults =
     (if length (observation_group.observations g) < compressionThreshold eng
      then compress_groups eng rest compressedResults
      else
        (case clusterSimilarObservations eng (observation_group.observations g) of
           Inl e \<Rightarrow> Inl e
         | Inr clusters \<Rightarrow>
             compress_groups eng rest (compress_clusters eng g clusters compressedResults)))"

definition compressObservations ::
  "compression_engine \<Rightarrow> int \<Rightarrow> pending list \<Rightarrow> error + compressed_observation list" where
  "compressObservations eng now pendingObservations =
     (if pendingObservations = [] then Inr []
      else try_catch
             (compress_groups eng (groupObservations eng now pendingObservations) [])
             (\<lambda>e. Inr []))"

subsection \<open>\<^verbatim>\<open>_groupByTimeWindow\<close> and \<^verbatim>\<open>temporalCompression\<close>\<close>

text \<open>
  \<^verbatim>\<open>a % b\<close> on integers: NaN (here \<open>None\<close>) for a zero divisor, and the sign of the
  dividend otherwise.
\<close>

definition js_rem :: "int \<Rightarrow> int \<Rightarrow> int option" where
  "js_rem a b = (if b = 0 then None else Some (sgn a * (\<bar>a\<bar> mod \<bar>b\<bar>)))"

type_synonym windows = "(string \<times> temporal_observation list) list"

text \<open>\<^verbatim>\<open>if (!windows[windowKey]) windows[windowKey] = []; windows[windowKey].push(obs)\<close>\<close>

fun push_window :: "string \<Rightarrow> temporal_observation \<Rightarrow> windows \<Rightarrow> windows" where
  "push_window windowKey ob [] = [(windowKey, [ob])]"
| "push_window windowKey ob ((k, obs) # rest) =
     (if k = windowKey then (k, obs @ [ob]) # rest else (k, obs) # push_window windowKey ob rest)"

text \<open>
  An observation without a timestamp is skipped. \<^verbatim>\<open>setDate\<close> of NaN makes the date
  invalid, and \<^verbatim>\<open>toISOString\<close> of an invalid date raises a RangeError.
\<close>

fun window_loop ::
  "date_env \<Rightarrow> int \<Rightarrow> temporal_observation list \<Rightarrow> windows \<Rightarrow> error + windows" where
  "window_loop env timeWindowDays [] windows = Inr windows"
| "window_loop env timeWindowDays (ob # rest) windows =
     (case timestamp ob of
        None \<Rightarrow> window_loop env timeWindowDays rest windows
      | Some t \<Rightarrow>
          (let windowStart = setHours0 env t
           in case js_rem (getDate env windowStart) timeWindowDays of
                None \<Rightarrow> Inl (RangeError ''Invalid time value'')
              | Some r \<Rightarrow>
                  (let windowKey =
                         toISODate env (setDate env windowStart (getDate env windowStart - r))
                   in window_loop env timeWindowDays rest (push_window windowKey ob windows))))"

definition groupByTimeWindow ::
  "date_env \<Rightarrow> temporal_observation list \<Rightarrow> int \<Rightarrow> error + windows" where
  "groupByTimeWindow env obsList timeWindowDays = window_loop env timeWindowDays obsList []"

fun temporal_loop ::
  "compression_engine \<Rightarrow> int \<Rightarrow> windows \<Rightarrow> compressed_observation list
     \<Rightarrow> error + compressed_observation list" where
  "temporal_loop eng now [] compressedResults = Inr compressedResults"
| "temporal_loop eng now ((windowKey, windowObservations) # rest) compressedResults =
     (let formattedObs =
            map (\<lambda>ob. \<lparr>pending.entityName = temporal_observation.entityName ob,
                        pending.entityType = or_else (temporal_observation.entityType ob) ''Unknown'',
                        observation = observation.truncate ob\<rparr>)
              windowObservations
      in case compressObservations eng now formattedObs of
           Inl e \<Rightarrow> Inl e
         | Inr windowCompressed \<Rightarrow>
             temporal_loop eng now rest
               (compressedResults @
                  map (\<lambda>compressed. compressed\<lparr>time_window := Some windowKey\<rparr>) windowCompressed))"

definition temporalCompression ::
  "compression_engine \<Rightarrow> date_env \<Rightarrow> int \<Rightarrow> temporal_observation list \<Rightarrow> int
     \<Rightarrow> error + compressed_observation list" where
  "temporalCompression eng env now obsList timeWindowDays =
     (if obsList = [] then Inr []
      else try_catch
             (case groupByTimeWindow env obsList timeWindowDays of
                Inl e \<Rightarrow> Inl e
              | Inr timeWindows \<Rightarrow> temporal_loop eng now timeWindows [])
             (\<lambda>e. Inr []))"

section \<open>Retrieval service\<close>

text \<open>
  The service is its options (\<^verbatim>\<open>this.options\<close>). The clock is read once per call
  (\<open>now\<close>, in milliseconds), and \<^verbatim>\<open>JSON.stringify\<close> on an entity is a parameter
  (\<open>stringify\<close>).
\<close>

definition merge_options :: "retrieval_options \<Rightarrow> option_overrides \<Rightarrow> retrieval_options" where
  "merge_options opts ov =
     \<lparr>retrieval_options.maxEntities =
        (case option_overrides.maxEntities ov of None \<Rightarrow> retrieval_options.maxEntities opts | Some v \<Rightarrow> v),
      retrieval_options.maxObservationsPerEntity =
        (case option_overrides.maxObservationsPerEntity ov of
           None \<Rightarrow> retrieval_options.maxObservationsPerEntity opts | Some v \<Rightarrow> v),
      retrieval_options.maxRelations =
        (case option_overrides.maxRelations ov of None \<Rightarrow> retrieval_options.maxRelations opts | Some v \<Rightarrow> v),
      retrieval_options.minConfidence =
        (case option_overrides.minConfidence ov of None \<Rightarrow> retrieval_options.minConfidence opts | Some v \<Rightarrow> v),
      retrieval_options.recencyWindow =
        (case option_overrides.recencyWindow ov of None \<Rightarrow> retrieval_options.recencyWindow opts | Some v \<Rightarrow> v),
      retrieval_options.weights =
        (case option_overrides.weights ov of None \<Rightarrow> retrieval_options.weights opts | Some v \<Rightarrow> v)\<rparr>"

subsection \<open>\<^verbatim>\<open>_extractKeywords\<close>\<close>

definition stopWords :: "string list" where
  "stopWords =
     [''the'', ''and'', ''are'', ''for'', ''was'', ''that'', ''this'', ''with'', ''have'', ''from'',
      ''what'', ''which'', ''when'', ''where'', ''who'', ''will'', ''would'', ''there'', ''their'',
      ''about'', ''should'', ''could'', ''been'', ''more'', ''very'', ''some'', ''other'', ''then'']"

definition isStopWord :: "string \<Rightarrow> bool" where
  "isStopWord word = List.member stopWords word"

text \<open>
  \<^verbatim>\<open>JSON.stringify(undefined)\<close> is \<^verbatim>\<open>undefined\<close>, and \<^verbatim>\<open>toLowerCase\<close> on it raises a
  TypeError. The \<^verbatim>\<open>wordCounts\<close> object is the list of its entries in insertion order.
\<close>

definition extractKeywords :: "conversation_context \<Rightarrow> error + string list" where
  "extractKeywords ctx =
     (case (case ctx of
              ContextString t \<Rightarrow> Some t
            | ContextObject json \<Rightarrow> Some json
            | ContextUndefined \<Rightarrow> None) of
        None \<Rightarrow> Inl (TypeError ''contextText.toLowerCase'')
      | Some contextText \<Rightarrow>
          (let tokens =
                 filter (\<lambda>word. length word > 3 \<and> \<not> isStopWord word)
                   (split_space
                      (map (\<lambda>c. if \<not> is_word_char c \<and> \<not> is_space_char c then CHR '' '' else c)
                         (toLowerCase contextText)));
               wordCounts = foldl (\<lambda>cs word. count_item word cs) [] tokens;
               keywords =
                 map fst
                   (take 10 (js_sort (\<lambda>a b. Finite (real (snd b) - real (snd a))) wordCounts))
           in Inr keywords))"

subsection \<open>\<^verbatim>\<open>_removeDuplicateEntities\<close>\<close>

fun dedup_loop :: "'o entity list \<Rightarrow> 'o entity list \<Rightarrow> string set \<Rightarrow> 'o entity list" where
  "dedup_loop [] uniqueEntities entityNames = uniqueEntities"
| "dedup_loop (e # rest) uniqueEntities entityNames =
     (if name e \<notin> entityNames
      then dedup_loop rest (uniqueEntities @ [e]) (insert (name e) entityNames)
      else dedup_loop rest uniqueEntities entityNames)"

definition removeDuplicateEntities :: "'o entity list \<Rightarrow> 'o entity list" where
  "removeDuplicateEntities es = dedup_loop es [] {}"

subsection \<open>Scores\<close>

text \<open>\<^verbatim>\<open>Math.max(0, 1 - (daysSince / recencyWindow))\<close> for an instant \<open>t\<close>.\<close>

definition daysSince :: "int \<Rightarrow> int \<Rightarrow> real" where
  "daysSince now t = real_of_int (now - t) / ms_per_day"

definition recency_decay :: "real \<Rightarrow> real \<Rightarrow> js_number" where
  "recency_decay days window = js_minus (Finite 1) (js_divide days window)"

definition calculateRelevanceScore ::
  "(observation entity \<Rightarrow> string) \<Rightarrow> observation entity \<Rightarrow> string list \<Rightarrow> real" where
  "calculateRelevanceScore stringify e keywords =
     (let entityString = toLowerCase (stringify e);
          matches =
            foldl (\<lambda>m keyword. if js_includes entityString (toLowerCase keyword) then m + 1 else m)
              (0 :: nat) keywords
      in if length keywords > 0 then real matches / real (length keywords) else 0)"

definition calculateRecencyScore :: "retrieval_options \<Rightarrow> int \<Rightarrow> observation entity \<Rightarrow> js_number" where
  "calculateRecencyScore opts now e =
     (case entity.observations e of
        None \<Rightarrow> Finite 0
      | Some obs \<Rightarrow>
          if obs = [] then Finite 0
          else
            (let timestamps =
                   filter (\<lambda>t. t > 0) (map (\<lambda>ob. case timestamp ob of Some t \<Rightarrow> t | None \<Rightarrow> 0) obs)
             in if timestamps = [] then Finite 0
                else
                  (let mostRecent = Max (set timestamps)
                   in js_max0 (recency_decay (daysSince now mostRecent)
                                 (retrieval_options.recencyWindow opts)))))"

definition calculateConfidenceScore :: "observation entity \<Rightarrow> real" where
  "calculateConfidenceScore e =
     (case entity.observations e of
        None \<Rightarrow> 0
      | Some obs \<Rightarrow>
          if obs = [] then 0
          else
            (let confidences = filter (\<lambda>c. c > 0) (map (confidence_or 0) obs)
             in if confidences = [] then 0
                else
                  (let avgConfidence =
                         real_of_int (foldl (\<lambda>sum val. sum + val) 0 confidences)
                           / real (length confidences)
                   in avgConfidence / 5)))"

definition scoreEntities ::
  "(observation entity \<Rightarrow> string) \<Rightarrow> retrieval_options \<Rightarrow> int \<Rightarrow> observation entity list
     \<Rightarrow> string list \<Rightarrow> observation scored_entity list" where
  "scoreEntities stringify opts now es keywords =
     map (\<lambda>e.
       (let relevanceScore = calculateRelevanceScore stringify e keywords;
            recencyScore = calculateRecencyScore opts now e;
            confidenceScore = calculateConfidenceScore e;
            w = retrieval_options.weights opts;
            totalScore =
              js_plus
                (js_plus (Finite (weights.relevance w * relevanceScore))
                         (js_scale (weights.recency w) recencyScore))
                (Finite (weights.confidence w * confidenceScore))
        in \<lparr>name = name e, entity.entityType = entity.entityType e,
            entity.observations = entity.observations e,
            scored_entity.score = totalScore,
            scores = \<lparr>entity_scores.relevance = relevanceScore,
                      entity_scores.recency = recencyScore,
                      entity_scores.confidence = confidenceScore\<rparr>\<rparr>)) es"

definition scoreRelations ::
  "retrieval_options \<Rightarrow> int \<Rightarrow> relation list \<Rightarrow> 'o scored_entity list \<Rightarrow> scored_relation list" where
  "scoreRelations opts now rels topEntities =
     (let entityNames = set (map name topEntities)
      in map (\<lambda>r.
           (let connectsTopEntities = (rel_from r \<in> entityNames \<and> rel_to r \<in> entityNames);
                base = (if connectsTopEntities then 1 else 1 / 2 :: real);
                boosted =
                  (case attributes r of
                     None \<Rightarrow> base
                   | Some a \<Rightarrow> if attributes.is_critical a then base + 3 / 10 else base);
                total =
                  (case attributes r of
                     None \<Rightarrow> Finite boosted
                   | Some a \<Rightarrow>
                       (case time a of
                          None \<Rightarrow> Finite boosted
                        | Some t \<Rightarrow>
                            js_plus (Finite boosted)
                              (js_max0 (js_scale (2 / 10)
                                 (recency_decay (daysSince now t)
                                    (retrieval_options.recencyWindow opts))))))
            in \<lparr>rel_from = rel_from r, relationType = relationType r, rel_to = rel_to r,
                attributes = attributes r, scored_relation.score = total\<rparr>)) rels)"

subsection \<open>\<^verbatim>\<open>_filterAndSortObservations\<close>\<close>

definition filterAndSortObservations ::
  "int \<Rightarrow> observation list \<Rightarrow> string list \<Rightarrow> retrieval_options \<Rightarrow> scored_observation list" where
  "filterAndSortObservations now obsList keywords opts =
     (if obsList = [] then []
      else
        (let filteredObservations =
               filter (\<lambda>ob. confidence_or 0 ob \<ge> retrieval_options.minConfidence opts) obsList;
             scoredObservations =
               map (\<lambda>ob.
                 (let relevanceScore =
                        real (foldl (\<lambda>sc keyword.
                                if (case content ob of
                                      None \<Rightarrow> False
                                    | Some c \<Rightarrow> c \<noteq> [] \<and> js_includes (toLowerCase c) (toLowerCase keyword))
                                then sc + 1 else sc) (0 :: nat) keywords)
                          / real (max 1 (length keywords));
                      recencyScore =
                        (case timestamp ob of
                           None \<Rightarrow> Finite 0
                         | Some t \<Rightarrow>
                             js_max0 (recency_decay (daysSince now t)
                                        (retrieval_options.recencyWindow opts)));
                      confidenceScore = real_of_int (confidence_or 0 ob) / 5;
                      criticalBonus = (if is_critical ob then 1 / 2 else 0 :: real);
                      w = retrieval_options.weights opts;
                      totalScore =
                        js_plus
                          (js_plus
                             (js_plus (Finite (weights.relevance w * relevanceScore))
                                      (js_scale (weights.recency w) recencyScore))
                             (Finite (weights.confidence w * confidenceScore)))
                          (Finite criticalBonus)
                  in \<lparr>content = content ob, timestamp = timestamp ob, confidence = confidence ob,
                      observation.category = observation.category ob, is_critical = is_critical ob,
                      scored_observation.score = totalScore\<rparr>)) filteredObservations
         in take (retrieval_options.maxObservationsPerEntity opts)
              (js_sort (\<lambda>a b. js_minus (scored_observation.score b) (scored_observation.score a))
                 scoredObservations)))"

subsection \<open>Gathering entities and relations from the graph\<close>

text \<open>\<^verbatim>\<open>for (const entityName of names) { ... getEntity ...; if (entity) entities.push(entity) }\<close>\<close>

fun getEntity_loop ::
  "knowledge_graph \<Rightarrow> string list \<Rightarrow> observation entity list \<Rightarrow> error + observation entity list" where
  "getEntity_loop kg [] es = Inr es"
| "getEntity_loop kg (n # rest) es =
     (case getEntity kg n of
        Inl e \<Rightarrow> Inl e
      | Inr None \<Rightarrow> getEntity_loop kg rest es
      | Inr (Some en) \<Rightarrow> getEntity_loop kg rest (es @ [en]))"

fun search_loop ::
  "knowledge_graph \<Rightarrow> string list \<Rightarrow> observation entity list \<Rightarrow> error + observation entity list" where
  "search_loop kg [] es = Inr es"
| "search_loop kg (keyword # rest) es =
     (case search kg keyword of
        Inl e \<Rightarrow> Inl e
      | Inr None \<Rightarrow> search_loop kg rest es
      | Inr (Some results) \<Rightarrow>
          (case search_results.entities results of
             None \<Rightarrow> search_loop kg rest es
           | Some found \<Rightarrow> search_loop kg rest (es @ found)))"

fun relations_loop ::
  "knowledge_graph \<Rightarrow> 'o scored_entity list \<Rightarrow> relation list \<Rightarrow> error + relation list" where
  "relations_loop kg [] rels = Inr rels"
| "relations_loop kg (e # rest) rels =
     (case getEntityRelations kg (name e) of
        Inl err \<Rightarrow> Inl err
      | Inr entityRelations \<Rightarrow> relations_loop kg rest (rels @ entityRelations))"

text \<open>
  The block that the category, critical and time-range retrievals share: the named
  entities, or all entities of the exported graph (reading \<^verbatim>\<open>graph.entities\<close> of a
  null graph raises a TypeError).
\<close>

definition requested_entities ::
  "knowledge_graph \<Rightarrow> string list \<Rightarrow> error + observation entity list" where
  "requested_entities kg entityNames =
     (if length entityNames > 0 then getEntity_loop kg entityNames []
      else
        (case exportGraph kg of
           Inl e \<Rightarrow> Inl e
         | Inr None \<Rightarrow> Inl (TypeError ''graph.entities'')
         | Inr (Some g) \<Rightarrow>
             Inr (case graph.entities g of None \<Rightarrow> [] | Some es \<Rightarrow> es)))"

subsection \<open>\<^verbatim>\<open>retrieveRelevantMemories\<close>\<close>

definition retrieveRelevantMemories_body ::
  "(observation entity \<Rightarrow> string) \<Rightarrow> retrieval_options \<Rightarrow> int \<Rightarrow> knowledge_graph
     \<Rightarrow> conversation_context \<Rightarrow> string list \<Rightarrow> option_overrides \<Rightarrow> error + retrieval_result" where
  "retrieveRelevantMemories_body stringify opts now kg ctx targetEntities ov =
     (let retrievalOptions = merge_options opts ov
      in case extractKeywords ctx of
           Inl e \<Rightarrow> Inl e
         | Inr keywords \<Rightarrow>
            (case (if length targetEntities > 0 then getEntity_loop kg targetEntities []
                   else (case search_loop kg keywords [] of
                           Inl e \<Rightarrow> Inl e
                         | Inr found \<Rightarrow> Inr (removeDuplicateEntities found))) of
               Inl e \<Rightarrow> Inl e
             | Inr es \<Rightarrow>
                (let scoredEntities = scoreEntities stringify opts now es keywords;
                     topEntities =
                       take (retrieval_options.maxEntities retrievalOptions)
                         (js_sort (\<lambda>a b. js_minus (scored_entity.score b) (scored_entity.score a))
                            scoredEntities)
                 in case relations_loop kg topEntities [] of
                      Inl e \<Rightarrow> Inl e
                    | Inr rels \<Rightarrow>
                       (let scoredRelations = scoreRelations opts now rels topEntities;
                            topRelations =
                              take (retrieval_options.maxRelations retrievalOptions)
                                (js_sort (\<lambda>a b. js_minus (scored_relation.score b)
                                                          (scored_relation.score a))
                                   scoredRelations);
                            processedEntities =
                              map (\<lambda>e.
                                \<lparr>name = name e, entity.entityType = entity.entityType e,
                                 entity.observations =
                                   Some (filterAndSortObservations now
                                     (case entity.observations e of None \<Rightarrow> [] | Some obs \<Rightarrow> obs)
                                     keywords retrievalOptions),
                                 scored_entity.score = scored_entity.score e,
                                 scores = scores e\<rparr>) topEntities
                        in Inr \<lparr>retrieval_result.entities = processedEntities,
                                retrieval_result.relations = topRelations,
                                context_info = Some (keywords, retrievalOptions),
                                retrieval_result.error = None\<rparr>))))"

definition retrieveRelevantMemories ::
  "(observation entity \<Rightarrow> string) \<Rightarrow> retrieval_options \<Rightarrow> int \<Rightarrow> knowledge_graph
     \<Rightarrow> conversation_context \<Rightarrow> string list \<Rightarrow> option_overrides \<Rightarrow> error + retrieval_result" where
  "retrieveRelevantMemories stringify opts now kg ctx targetEntities ov =
     try_catch (retrieveRelevantMemories_body stringify opts now kg ctx targetEntities ov)
       (\<lambda>e. Inr \<lparr>retrieval_result.entities = [], retrieval_result.relations = [],
                  context_info = None, retrieval_result.error = Some (message e)\<rparr>)"

subsection \<open>\<^verbatim>\<open>retrieveByCategory\<close>\<close>

definition retrieveByCategory_body ::
  "retrieval_options \<Rightarrow> int \<Rightarrow> knowledge_graph \<Rightarrow> string \<Rightarrow> string list \<Rightarrow> option_overrides
     \<Rightarrow> error + category_result" where
  "retrieveByCategory_body opts now kg cat entityNames ov =
     (case requested_entities kg entityNames of
        Inl e \<Rightarrow> Inl e
      | Inr es \<Rightarrow>
          (let filteredEntities =
                 filter (\<lambda>e. length (case entity.observations e of None \<Rightarrow> [] | Some obs \<Rightarrow> obs) > 0)
                   (map (\<lambda>e.
                      (let categoryObservations =
                             filter (\<lambda>ob. observation.category ob = Some cat)
                               (case entity.observations e of None \<Rightarrow> [] | Some obs \<Rightarrow> obs)
                       in e\<lparr>entity.observations := Some categoryObservations\<rparr>)) es);
               mergedOptions = merge_options opts ov;
               processedEntities =
                 map (\<lambda>e.
                   \<lparr>name = name e, entity.entityType = entity.entityType e,
                    entity.observations =
                      Some (filterAndSortObservations now
                              (case entity.observations e of None \<Rightarrow> [] | Some obs \<Rightarrow> obs)
                              [] mergedOptions)\<rparr>) filteredEntities
           in Inr \<lparr>category_result.category = cat,
                   category_result.entities = processedEntities,
                   category_result.error = None\<rparr>))"

definition retrieveByCategory ::
  "retrieval_options \<Rightarrow> int \<Rightarrow> knowledge_graph \<Rightarrow> string \<Rightarrow> string list \<Rightarrow> option_overrides
     \<Rightarrow> error + category_result" where
  "retrieveByCategory opts now kg cat entityNames ov =
     try_catch (retrieveByCategory_body opts now kg cat entityNames ov)
       (\<lambda>e. Inr \<lparr>category_result.category = cat, category_result.entities = [],
                  category_result.error = Some (message e)\<rparr>)"

subsection \<open>\<^verbatim>\<open>retrieveCriticalMemories\<close>\<close>

definition retrieveCriticalMemories_body ::
  "knowledge_graph \<Rightarrow> string list \<Rightarrow> error + critical_result" where
  "retrieveCriticalMemories_body kg entityNames =
     (case requested_entities kg entityNames of
        Inl e \<Rightarrow> Inl e
      | Inr es \<Rightarrow>
          (let criticalEntities =
                 filter (\<lambda>e. length (case entity.observations e of None \<Rightarrow> [] | Some obs \<Rightarrow> obs) > 0)
                   (map (\<lambda>e.
                      (let criticalObservations =
                             filter (\<lambda>ob. is_critical ob = True)
                               (case entity.observations e of None \<Rightarrow> [] | Some obs \<Rightarrow> obs)
                       in e\<lparr>entity.observations := Some criticalObservations\<rparr>)) es)
           in case exportGraph kg of
                Inl e \<Rightarrow> Inl e
              | Inr g \<Rightarrow>
                  (let rels =
                         (case g of
                            None \<Rightarrow> []
                          | Some gr \<Rightarrow>
                              (case graph.relations gr of
                                 None \<Rightarrow> []
                               | Some rs \<Rightarrow>
                                   filter (\<lambda>r. case attributes r of
                                                  None \<Rightarrow> False
                                                | Some a \<Rightarrow> attributes.is_critical a = True) rs))
                   in Inr \<lparr>critical_result.entities = criticalEntities,
                           critical_result.relations = rels,
                           critical_result.error = None\<rparr>)))"

definition retrieveCriticalMemories ::
  "knowledge_graph \<Rightarrow> string list \<Rightarrow> error + critical_result" where
  "retrieveCriticalMemories kg entityNames =
     try_catch (retrieveCriticalMemories_body kg entityNames)
       (\<lambda>e. Inr \<lparr>critical_result.entities = [], critical_result.relations = [],
                  critical_result.error = Some (message e)\<rparr>)"

subsection \<open>\<^verbatim>\<open>retrieveByTimeRange\<close>\<close>

text \<open>
  In the result an absent \<open>startDate\<close> stands for \<^verbatim>\<open>"beginning"\<close>, and the end date is
  the given one or the time of the call.
\<close>

definition retrieveByTimeRange_body ::
  "int \<Rightarrow> knowledge_graph \<Rightarrow> time_range \<Rightarrow> string list \<Rightarrow> error + time_range_result" where
  "retrieveByTimeRange_body now kg tr entityNames =
     (let startTime = (case startDate tr of None \<Rightarrow> 0 | Some t \<Rightarrow> t);
          endTime = (case endDate tr of None \<Rightarrow> now | Some t \<Rightarrow> t)
      in case requested_entities kg entityNames of
           Inl e \<Rightarrow> Inl e
         | Inr es \<Rightarrow>
             (let filteredEntities =
                    filter (\<lambda>e. length (case entity.observations e of None \<Rightarrow> [] | Some obs \<Rightarrow> obs) > 0)
                      (map (\<lambda>e.
                         (let timeRangeObservations =
                                filter (\<lambda>ob. case timestamp ob of
                                               None \<Rightarrow> False
                                             | Some obsTime \<Rightarrow> obsTime \<ge> startTime \<and> obsTime \<le> endTime)
                                  (case entity.observations e of None \<Rightarrow> [] | Some obs \<Rightarrow> obs)
                          in e\<lparr>entity.observations := Some timeRangeObservations\<rparr>)) es)
              in case exportGraph kg of
                   Inl e \<Rightarrow> Inl e
                 | Inr g \<Rightarrow>
                     (let rels =
                            (case g of
                               None \<Rightarrow> []
                             | Some gr \<Rightarrow>
                                 (case graph.relations gr of
                                    None \<Rightarrow> []
                                  | Some rs \<Rightarrow>
                                      filter (\<lambda>r. case attributes r of
                                                     None \<Rightarrow> False
                                                   | Some a \<Rightarrow>
                                                       (case time a of
                                                          None \<Rightarrow> False
                                                        | Some relationTime \<Rightarrow>
                                                            relationTime \<ge> startTime
                                                            \<and> relationTime \<le> endTime)) rs))
                      in Inr \<lparr>timeRange = \<lparr>startDate = startDate tr, endDate = Some endTime\<rparr>,
                              time_range_result.entities = filteredEntities,
                              time_range_result.relations = rels,
                              time_range_result.error = None\<rparr>)))"

definition retrieveByTimeRange ::
  "int \<Rightarrow> knowledge_graph \<Rightarrow> time_range \<Rightarrow> string list \<Rightarrow> error + time_range_result" where
  "retrieveByTimeRange now kg tr entityNames =
     try_catch (retrieveByTimeRange_body now kg tr entityNames)
       (\<lambda>e. Inr \<lparr>timeRange = tr, time_range_result.entities = [],
                  time_range_result.relations = [],
                  time_range_result.error = Some (message e)\<rparr>)"

section \<open>Definitions used to state the properties\<close>

text \<open>
  The observations at the positions from \<open>j\<close> on that are not in the processed set, in
  their order: what the loops of the clusterer still have to look at.
\<close>

definition unassigned :: "'a list \<Rightarrow> nat \<Rightarrow> nat set \<Rightarrow> 'a list" where
  "unassigned xs j P = map (nth xs) (filter (\<lambda>k. k \<notin> P) [j..<length xs])"

text \<open>Example data.\<close>

definition example_observation :: "string \<Rightarrow> int \<Rightarrow> int \<Rightarrow> observation" where
  "example_observation s t c =
     \<lparr>content = Some s, timestamp = Some t, confidence = Some c,
      observation.category = Some ''goal'', is_critical = False\<rparr>"

definition example_pending :: "observation \<Rightarrow> pending" where
  "example_pending ob =
     \<lparr>pending.entityName = ''User'', pending.entityType = ''Person'', observation = ob\<rparr>"

text \<open>
  The eligibility rules of the observation filter, in the words of the specification: an
  item is excluded when critical preservation is on and it is critical, when its
  confidence is below the minimum, or when its age in days exceeds the maximum.
\<close>

definition eligible :: "compression_engine \<Rightarrow> int \<Rightarrow> pending \<Rightarrow> bool" where
  "eligible eng now item \<longleftrightarrow>
     \<not> (preserveCritical (options eng) \<and> is_critical (observation item))
     \<and> \<not> (\<exists>c. confidence (observation item) = Some c
              \<and> c < compression_options.minConfidence (options eng))
     \<and> \<not> (\<exists>t. timestamp (observation item) = Some t
              \<and> real_of_int (now - t) / (1000 * 60 * 60 * 24) > maxObservationAge (options eng))"

definition group_key :: "pending \<Rightarrow> string" where
  "group_key item =
     pending.entityName item @ '':'' @
       (case observation.category (observation item) of
          None \<Rightarrow> ''general''
        | Some c \<Rightarrow> if c = [] then ''general'' else c)"

text \<open>More example data: the engine of the example of the specification.\<close>

definition example_engine :: "nat \<Rightarrow> real \<Rightarrow> compression_engine" where
  "example_engine threshold similarity =
     \<lparr>compressionThreshold = threshold,
      options = default_compression_options\<lparr>similarityThreshold := similarity\<rparr>\<rparr>"

text \<open>
  The eligible items of a list with a given group key, in their order, and the invariant
  of the grouping loop: the groups seen so far are, key by key, the eligible items seen
  so far.
\<close>

definition survivors :: "compression_engine \<Rightarrow> int \<Rightarrow> pending list \<Rightarrow> string \<Rightarrow> pending list" where
  "survivors eng now items k = filter (\<lambda>it. eligible eng now it \<and> group_key it = k) items"

definition group_inv :: "compression_engine \<Rightarrow> int \<Rightarrow> pending list \<Rightarrow> groups \<Rightarrow> bool" where
  "group_inv eng now seen G \<longleftrightarrow>
     distinct (map fst G)
     \<and> (\<forall>k. case map_of G k of
               None \<Rightarrow> survivors eng now seen k = []
             | Some g \<Rightarrow>
                 survivors eng now seen k \<noteq> []
                 \<and> observation_group.observations g = map observation (survivors eng now seen k)
                 \<and> observation_group.entityName g = pending.entityName (hd (survivors eng now seen k))
                 \<and> observation_group.entityType g = pending.entityType (hd (survivors eng now seen k))
                 \<and> observation_group.category g
                     = category_or_general (observation.category (observation (hd (survivors eng now seen k)))))"


text \<open>
  The order \<^verbatim>\<open>a >= b\<close> on numbers, in which the score lists are stated to be
  descending, finiteness, and the value of a finite number.
\<close>

fun js_geq :: "js_number \<Rightarrow> js_number \<Rightarrow> bool" where
  "js_geq (Finite a) (Finite b) = (b \<le> a)"
| "js_geq NaN y = False"
| "js_geq x NaN = False"
| "js_geq PosInfinity y = True"
| "js_geq x NegInfinity = True"
| "js_geq x PosInfinity = False"
| "js_geq NegInfinity y = False"

fun is_finite :: "js_number \<Rightarrow> bool" where
  "is_finite (Finite x) = True"
| "is_finite x = False"

fun js_value :: "js_number \<Rightarrow> real" where
  "js_value (Finite x) = x"
| "js_value x = 0"

text \<open>An example graph, a graph that fails, and an example serialisation and calendar.\<close>

definition example_alice :: "observation entity" where
  "example_alice =
     \<lparr>name = ''Alice'', entity.entityType = ''Person'',
      entity.observations =
        Some [example_observation ''Alice designs the memory system'' 913600000 5]\<rparr>"

definition example_bob :: "observation entity" where
  "example_bob =
     \<lparr>name = ''Bob'', entity.entityType = ''Person'',
      entity.observations =
        Some [example_observation ''Bob plays chess'' 913600000 2,
              (example_observation ''Bob is allergic to nuts'' 827200000 5)\<lparr>is_critical := True\<rparr>]\<rparr>"

definition example_relations :: "relation list" where
  "example_relations =
     [\<lparr>rel_from = ''Alice'', relationType = ''knows'', rel_to = ''Bob'',
       attributes = Some \<lparr>time = Some 913600000, attributes.is_critical = True\<rparr>\<rparr>,
      \<lparr>rel_from = ''Bob'', relationType = ''knows'', rel_to = ''Carol'',
       attributes = None\<rparr>]"

definition example_graph :: knowledge_graph where
  "example_graph =
     \<lparr>getEntity =
        (\<lambda>n. if n = ''Alice'' then Inr (Some example_alice)
              else if n = ''Bob'' then Inr (Some example_bob) else Inr None),
      search = (\<lambda>q. Inr (Some \<lparr>search_results.entities = Some [example_bob, example_alice]\<rparr>)),
      getEntityRelations = (\<lambda>n. Inr example_relations),
      exportGraph =
        Inr (Some \<lparr>graph.entities = Some [example_alice, example_bob],
                   graph.relations = Some example_relations\<rparr>)\<rparr>"

definition failing_graph :: knowledge_graph where
  "failing_graph =
     \<lparr>getEntity = (\<lambda>n. Inl (GraphError ''unavailable'')),
      search = (\<lambda>q. Inl (GraphError ''unavailable'')),
      getEntityRelations = (\<lambda>n. Inl (GraphError ''unavailable'')),
      exportGraph = Inl (GraphError ''unavailable'')\<rparr>"

definition example_stringify :: "observation entity \<Rightarrow> string" where
  "example_stringify e =
     name e @ '' '' @
       concat (map (\<lambda>ob. case content ob of None \<Rightarrow> [] | Some c \<Rightarrow> c)
                 (case entity.observations e of None \<Rightarrow> [] | Some obs \<Rightarrow> obs))"

definition example_date_env :: date_env where
  "example_date_env =
     \<lparr>setHours0 = (\<lambda>t. t - t mod 86400000),
      getDate = (\<lambda>t. 1 + (t div 86400000) mod 30),
      setDate = (\<lambda>t d. t + (d - (1 + (t div 86400000) mod 30)) * 86400000),
      toISODate = (\<lambda>t. string_of_nat (nat (t div 86400000)))\<rparr>"

section \<open>Token similarity\<close>

lemma calculateSimilarity_Some:
  "calculateSimilarity (Some a) (Some b) =
     Inr (js_div_size (card (set (tokens_of a) \<inter> set (tokens_of b)))
                      (card (set (tokens_of a) \<union> set (tokens_of b))))"
  by (simp add: calculateSimilarity_def Let_def Int_def)

lemma similarity_symmetric:
  "calculateSimilarity (Some a) (Some b) = calculateSimilarity (Some b) (Some a)"
  by (simp add: calculateSimilarity_Some Int_commute Un_commute)

lemma similarity_bounded:
  assumes "tokens_of a \<noteq> [] \<or> tokens_of b \<noteq> []"
  shows "\<exists>r. calculateSimilarity (Some a) (Some b) = Inr (Finite r) \<and> 0 \<le> r \<and> r \<le> 1"
proof -
  let ?A = "set (tokens_of a)" and ?B = "set (tokens_of b)"
  have ne: "?A \<union> ?B \<noteq> {}" using assms by auto
  then have pos: "card (?A \<union> ?B) \<noteq> 0" by (simp only: card_eq_0_iff) simp
  have le: "card (?A \<inter> ?B) \<le> card (?A \<union> ?B)"
    by (rule card_mono) auto
  have eq: "calculateSimilarity (Some a) (Some b)
      = Inr (Finite (real (card (?A \<inter> ?B)) / real (card (?A \<union> ?B))))"
    unfolding calculateSimilarity_Some js_div_size_def using pos by (simp only: if_False)
  have pos': "0 < real (card (?A \<union> ?B))"
    using pos by (simp only: of_nat_0_less_iff)
  have "real (card (?A \<inter> ?B)) / real (card (?A \<union> ?B)) \<le> 1"
    using le by (simp only: divide_le_eq_1_pos [OF pos'] of_nat_le_iff)
  moreover have "0 \<le> real (card (?A \<inter> ?B)) / real (card (?A \<union> ?B))"
    by simp
  ultimately show ?thesis using eq by blast
qed

lemma similarity_self:
  assumes "tokens_of x \<noteq> []"
  shows "calculateSimilarity (Some x) (Some x) = Inr (Finite 1)"
  using assms by (simp add: calculateSimilarity_Some js_div_size_def)

lemma similarity_no_tokens:
  assumes "tokens_of a = []" and "tokens_of b = []"
  shows "calculateSimilarity (Some a) (Some b) = Inr NaN"
  using assms by (simp add: calculateSimilarity_Some js_div_size_def)

text \<open>
  C1. The claim: the similarity of two strings is the Jaccard index of their token sets,
  a real number in [0,1], it is 0 when both inputs are empty or have no tokens, and
  \<open>sim(x, x) = 1\<close> for every non-empty \<open>x\<close>. The code divides the two set sizes
  without a guard: on two empty strings, and on the non-empty string \<open>!\<close> compared with
  itself, the union is empty and the result is NaN, neither 0 nor 1. (Where one of the
  inputs has a token the result is the Jaccard index in [0,1], symmetric, and 1 on equal
  inputs: the lemmas above.)
\<close>

theorem similarity_without_tokens_is_NaN:
  "calculateSimilarity (Some '''') (Some '''') = Inr NaN
   \<and> calculateSimilarity (Some ''!'') (Some ''!'') = Inr NaN"
  by code_simp

section \<open>The similarity clusterer\<close>

lemma unassigned_end: "length xs \<le> j \<Longrightarrow> unassigned xs j P = []"
  by (simp add: unassigned_def)

lemma unassigned_skip:
  "j < length xs \<Longrightarrow> j \<in> P \<Longrightarrow> unassigned xs j P = unassigned xs (Suc j) P"
  by (simp add: unassigned_def upt_conv_Cons)

lemma unassigned_take:
  "j < length xs \<Longrightarrow> j \<notin> P \<Longrightarrow> unassigned xs j P = xs ! j # unassigned xs (Suc j) P"
  by (simp add: unassigned_def upt_conv_Cons)

lemma unassigned_insert_below: "i < j \<Longrightarrow> unassigned xs j (insert i P) = unassigned xs j P"
  unfolding unassigned_def
  by (rule arg_cong [where f = "map (nth xs)"], rule filter_cong) auto

lemma unassigned_all: "unassigned xs 0 {} = xs"
  by (simp add: unassigned_def map_nth)

lemma similar_to_seed_Inr:
  "calculateSimilarity (content a) (content b) = Inr s \<Longrightarrow>
     similar_to_seed eng a b = js_ge s (similarityThreshold (options eng))"
  by (simp add: similar_to_seed_def)

text \<open>
  The inner loop appends the unassigned observations similar to the seed, in their
  order, and marks exactly those as processed.
\<close>

lemma cluster_scan_spec:
  "cluster_scan eng obs a j cl P = Inr (cl', P') \<Longrightarrow>
     cl' = cl @ filter (similar_to_seed eng a) (unassigned obs j P) \<and>
     P' = P \<union> {k. j \<le> k \<and> k < length obs \<and> k \<notin> P \<and> similar_to_seed eng a (obs ! k)}"
proof (induction eng obs a j cl P rule: cluster_scan.induct)
  case (1 eng obs a j cl P)
  show ?case
  proof (cases "j < length obs")
    case False
    with "1.prems" show ?thesis
      by (subst (asm) cluster_scan.simps) (auto simp: unassigned_end)
  next
    case lt: True
    have split: "{k. j \<le> k \<and> Q k} = (if Q j then {j} else {}) \<union> {k. Suc j \<le> k \<and> Q k}" for Q
      by (auto simp: Suc_le_eq le_less)
    show ?thesis
    proof (cases "j \<in> P")
      case True
      with lt "1.prems" have "cluster_scan eng obs a (j + 1) cl P = Inr (cl', P')"
        by (subst (asm) cluster_scan.simps) simp
      from "1.IH"(1) [OF lt True this] lt True show ?thesis
        by (subst split) (simp add: unassigned_skip)
    next
      case False
      from lt False "1.prems" obtain s where
        s: "calculateSimilarity (content a) (content (obs ! j)) = Inr s"
        by (subst (asm) cluster_scan.simps) (auto simp: Let_def split: sum.splits)
      note sim = similar_to_seed_Inr [OF s, of eng]
      show ?thesis
      proof (cases "js_ge s (similarityThreshold (options eng))")
        case ge: True
        with lt False s "1.prems"
        have "cluster_scan eng obs a (j + 1) (cl @ [obs ! j]) (insert j P) = Inr (cl', P')"
          by (subst (asm) cluster_scan.simps) (simp add: Let_def)
        from "1.IH"(2) [OF lt False refl s ge this] lt False ge sim show ?thesis
          by (subst split) (auto simp: unassigned_take unassigned_insert_below)
      next
        case nge: False
        with lt False s "1.prems"
        have "cluster_scan eng obs a (j + 1) cl P = Inr (cl', P')"
          by (subst (asm) cluster_scan.simps) (simp add: Let_def)
        from "1.IH"(3) [OF lt False refl s nge this] lt False nge sim show ?thesis
          by (subst split) (auto simp: unassigned_take)
      qed
    qed
  qed
qed

lemma unassigned_after_scan:
  assumes "i < j"
  shows "unassigned obs j (insert i P \<union> {k. j \<le> k \<and> k < length obs \<and> k \<notin> insert i P \<and> sim (obs ! k)})
       = filter (\<lambda>x. \<not> sim x) (unassigned obs j P)"
proof -
  have "filter (\<lambda>k. k \<notin> insert i P \<union> {k. j \<le> k \<and> k < length obs \<and> k \<notin> insert i P \<and> sim (obs ! k)}) [j..<length obs]
      = filter (\<lambda>k. k \<notin> P \<and> \<not> sim (obs ! k)) [j..<length obs]"
    using assms by (intro filter_cong) auto
  then show ?thesis
    by (simp add: unassigned_def filter_map comp_def)
qed

text \<open>The outer loop is the greedy seed clustering of the observations left over.\<close>

lemma cluster_loop_spec:
  "cluster_loop eng obs i cls P = Inr r \<Longrightarrow>
     r = cls @ greedy_seed_clusters (similar_to_seed eng) (unassigned obs i P)"
proof (induction eng obs i cls P arbitrary: r rule: cluster_loop.induct)
  case (1 eng obs i cls P)
  show ?case
  proof (cases "i < length obs")
    case False
    with "1.prems" show ?thesis
      by (subst (asm) cluster_loop.simps) (auto simp: unassigned_end)
  next
    case lt: True
    show ?thesis
    proof (cases "i \<in> P")
      case True
      with lt "1.prems" have "cluster_loop eng obs (i + 1) cls P = Inr r"
        by (subst (asm) cluster_loop.simps) simp
      from "1.IH"(1) [OF lt True this] lt True show ?thesis
        by (simp add: unassigned_skip)
    next
      case False
      from lt False "1.prems" obtain cl' P' where
        scan: "cluster_scan eng obs (obs ! i) (i + 1) [obs ! i] (insert i P) = Inr (cl', P')"
        by (subst (asm) cluster_loop.simps) (auto simp: Let_def split: sum.splits)
      with lt False "1.prems" have
        rest: "cluster_loop eng obs (i + 1) (if length cl' > 1 then cls @ [cl'] else cls) P' = Inr r"
        by (subst (asm) cluster_loop.simps) (simp add: Let_def)
      from cluster_scan_spec [OF scan] have
        cl': "cl' = obs ! i # filter (similar_to_seed eng (obs ! i)) (unassigned obs (Suc i) P)"
        and P': "P' = insert i P \<union> {k. Suc i \<le> k \<and> k < length obs \<and> k \<notin> insert i P
                    \<and> similar_to_seed eng (obs ! i) (obs ! k)}"
        by (simp_all add: unassigned_insert_below)
      have left: "unassigned obs (Suc i) P'
          = filter (\<lambda>x. \<not> similar_to_seed eng (obs ! i) x) (unassigned obs (Suc i) P)"
        unfolding P' by (rule unassigned_after_scan) simp
      from "1.IH"(2) [OF lt False refl scan refl rest]
      show ?thesis
        by (simp add: unassigned_take [OF lt False] left cl' Let_def)
    qed
  qed
qed

lemma clusterSimilarObservations_greedy:
  "clusterSimilarObservations eng obs = Inr clusters \<Longrightarrow>
     clusters = greedy_seed_clusters (similar_to_seed eng) obs"
  unfolding clusterSimilarObservations_def
  by (drule cluster_loop_spec) (simp add: unassigned_all)

lemma greedy_seed_clusters_members:
  "c \<in> set (greedy_seed_clusters sim xs) \<Longrightarrow>
     2 \<le> length c \<and> hd c \<in> set xs \<and> set (tl c) \<subseteq> set xs \<and> (\<forall>m \<in> set (tl c). sim (hd c) m)"
proof (induction sim xs rule: greedy_seed_clusters.induct)
  case (1 sim)
  then show ?case by simp
next
  case (2 sim seed later)
  let ?members = "filter (sim seed) later"
  let ?left = "filter (\<lambda>x. \<not> sim seed x) later"
  from "2.prems" consider
    (here) "?members \<noteq> []" "c = seed # ?members"
    | (there) "c \<in> set (greedy_seed_clusters sim ?left)"
    by (auto simp: Let_def split: if_splits)
  then show ?case
  proof cases
    case here
    have len: "1 \<le> length ?members" using here(1) by (cases ?members) simp_all
    have c: "hd c = seed" "tl c = ?members" "length c = Suc (length ?members)"
      using here(2) by simp_all
    show ?thesis
    proof (intro conjI)
      show "2 \<le> length c" using c(3) len by simp
      show "hd c \<in> set (seed # later)" using c(1) by simp
      show "set (tl c) \<subseteq> set (seed # later)" using c(2) by auto
      show "\<forall>m \<in> set (tl c). sim (hd c) m" using c(1,2) by simp
    qed
  next
    case there
    from "2.IH" [OF refl refl there] show ?thesis by auto
  qed
qed

lemma similar_to_seed_D:
  "similar_to_seed eng a b \<Longrightarrow>
     \<exists>s. calculateSimilarity (content a) (content b) = Inr s
          \<and> js_ge s (similarityThreshold (options eng))"
  by (auto simp: similar_to_seed_def split: sum.splits)

lemma calculateSimilarity_present:
  "content a \<noteq> None \<Longrightarrow> content b \<noteq> None \<Longrightarrow> \<exists>s. calculateSimilarity (content a) (content b) = Inr s"
  by (auto simp: calculateSimilarity_def Let_def)

text \<open>With every content present the clusterer returns its clusters.\<close>

lemma cluster_scan_returns:
  assumes "\<forall>ob \<in> set obs. content ob \<noteq> None" and "content a \<noteq> None"
  shows "\<exists>r. cluster_scan eng obs a j cl P = Inr r"
  using assms
proof (induction eng obs a j cl P rule: cluster_scan.induct)
  case (1 eng obs a j cl P)
  show ?case
  proof (cases "j < length obs")
    case False
    then show ?thesis by (subst cluster_scan.simps) simp
  next
    case lt: True
    show ?thesis
    proof (cases "j \<in> P")
      case True
      with lt "1.IH"(1) [OF lt True "1.prems"] show ?thesis
        by (subst cluster_scan.simps) simp
    next
      case False
      from lt "1.prems"(1) have "content (obs ! j) \<noteq> None" by simp
      with "1.prems"(2) obtain s where
        s: "calculateSimilarity (content a) (content (obs ! j)) = Inr s"
        using calculateSimilarity_present by blast
      show ?thesis
      proof (cases "js_ge s (similarityThreshold (options eng))")
        case ge: True
        from "1.IH"(2) [OF lt False refl s ge "1.prems"] lt False s ge show ?thesis
          by (subst cluster_scan.simps) (simp add: Let_def)
      next
        case nge: False
        from "1.IH"(3) [OF lt False refl s nge "1.prems"] lt False s nge show ?thesis
          by (subst cluster_scan.simps) (simp add: Let_def)
      qed
    qed
  qed
qed

lemma cluster_loop_returns:
  assumes "\<forall>ob \<in> set obs. content ob \<noteq> None"
  shows "\<exists>r. cluster_loop eng obs i cls P = Inr r"
  using assms
proof (induction eng obs i cls P rule: cluster_loop.induct)
  case (1 eng obs i cls P)
  show ?case
  proof (cases "i < length obs")
    case False
    then show ?thesis by (subst cluster_loop.simps) simp
  next
    case lt: True
    show ?thesis
    proof (cases "i \<in> P")
      case True
      with lt "1.IH"(1) [OF lt True "1.prems"] show ?thesis
        by (subst cluster_loop.simps) simp
    next
      case False
      from lt "1.prems" have "content (obs ! i) \<noteq> None" by simp
      with "1.prems" obtain cl' P' where
        scan: "cluster_scan eng obs (obs ! i) (i + 1) [obs ! i] (insert i P) = Inr (cl', P')"
        using cluster_scan_returns by (metis surj_pair)
      from "1.IH"(2) [OF lt False refl scan refl "1.prems"] lt False scan show ?thesis
        by (subst cluster_loop.simps) (simp add: Let_def)
    qed
  qed
qed

lemma clusterSimilarObservations_returns:
  "\<forall>ob \<in> set obs. content ob \<noteq> None \<Longrightarrow>
     clusterSimilarObservations eng obs = Inr (greedy_seed_clusters (similar_to_seed eng) obs)"
  using cluster_loop_returns [of obs eng 0 "[]" "{}"] clusterSimilarObservations_greedy [of eng obs]
  by (auto simp: clusterSimilarObservations_def)


text \<open>
  C3. Every cluster that the similarity clusterer returns has at least two members, and
  each member after the first (the seed) has a similarity to the seed that is at least
  \<open>similarityThreshold\<close>. The clusters are those of the greedy single pass in input
  order: the first observation not yet assigned opens a cluster, the later unassigned
  observations similar to it join, and the pass goes on with the rest. Membership is by
  similarity to the seed only (in the example two members of one cluster have similarity
  1/5 to each other, below the threshold 6/10).
\<close>

theorem clusters_follow_seed:
  assumes "clusterSimilarObservations eng obs = Inr clusters"
  shows "clusters = greedy_seed_clusters (similar_to_seed eng) obs
         \<and> (\<forall>c \<in> set clusters.
              2 \<le> length c
              \<and> (\<forall>m \<in> set (tl c).
                    \<exists>s. calculateSimilarity (content (hd c)) (content m) = Inr s
                        \<and> js_ge s (similarityThreshold (options eng))))"
proof -
  have g: "clusters = greedy_seed_clusters (similar_to_seed eng) obs"
    using assms by (rule clusterSimilarObservations_greedy)
  show ?thesis
  proof (intro conjI ballI)
    show "clusters = greedy_seed_clusters (similar_to_seed eng) obs" by (rule g)
  next
    fix c assume "c \<in> set clusters"
    with g greedy_seed_clusters_members [of c "similar_to_seed eng" obs]
    show "2 \<le> length c" by simp
  next
    fix c m assume "c \<in> set clusters" and m: "m \<in> set (tl c)"
    with g greedy_seed_clusters_members [of c "similar_to_seed eng" obs]
    have "similar_to_seed eng (hd c) m" by simp
    then show "\<exists>s. calculateSimilarity (content (hd c)) (content m) = Inr s
                        \<and> js_ge s (similarityThreshold (options eng))"
      by (rule similar_to_seed_D)
  qed
qed

theorem clusters_follow_seed_witness:
  "clusterSimilarObservations default_engine
     [example_observation ''a b c d e'' 1 5, example_observation ''x y'' 2 5,
      example_observation ''a b c'' 3 5, example_observation ''c d e'' 4 5]
   = Inr [[example_observation ''a b c d e'' 1 5, example_observation ''a b c'' 3 5,
           example_observation ''c d e'' 4 5]]
   \<and> [[example_observation ''a b c d e'' 1 5, example_observation ''a b c'' 3 5,
        example_observation ''c d e'' 4 5]]
     = greedy_seed_clusters (similar_to_seed default_engine)
         [example_observation ''a b c d e'' 1 5, example_observation ''x y'' 2 5,
          example_observation ''a b c'' 3 5, example_observation ''c d e'' 4 5]
   \<and> calculateSimilarity (Some ''a b c'') (Some ''c d e'') = Inr (Finite (1 / 5))"
proof -
  have run: "clusterSimilarObservations default_engine
     [example_observation ''a b c d e'' 1 5, example_observation ''x y'' 2 5,
      example_observation ''a b c'' 3 5, example_observation ''c d e'' 4 5]
   = Inr [[example_observation ''a b c d e'' 1 5, example_observation ''a b c'' 3 5,
           example_observation ''c d e'' 4 5]]"
    by code_simp
  have apart: "calculateSimilarity (Some ''a b c'') (Some ''c d e'') = Inr (Finite (1 / 5))"
    by code_simp
  from clusters_follow_seed [OF run] have
    "[[example_observation ''a b c d e'' 1 5, example_observation ''a b c'' 3 5,
        example_observation ''c d e'' 4 5]]
     = greedy_seed_clusters (similar_to_seed default_engine)
         [example_observation ''a b c d e'' 1 5, example_observation ''x y'' 2 5,
          example_observation ''a b c'' 3 5, example_observation ''c d e'' 4 5]"
    by (rule conjunct1)
  with run apart show ?thesis by (intro conjI)
qed

section \<open>Sorting\<close>

lemma mset_insert_sorted: "mset (insert_sorted cmp x ys) = add_mset x (mset ys)"
  by (induction ys) simp_all

lemma mset_js_sort: "mset (js_sort cmp xs) = mset xs"
  unfolding js_sort_def by (induction xs) (simp_all add: mset_insert_sorted)

lemma set_js_sort: "set (js_sort cmp xs) = set xs"
  by (metis mset_js_sort set_mset_mset)

lemma length_js_sort: "length (js_sort cmp xs) = length xs"
  by (metis mset_js_sort size_mset)

lemma js_sort_Nil_iff: "js_sort cmp xs = [] \<longleftrightarrow> xs = []"
  by (metis length_js_sort length_0_conv)

lemma set_insert_sorted: "set (insert_sorted cmp x ys) = insert x (set ys)"
  by (metis mset_insert_sorted set_mset_add_mset_insert set_mset_mset)

text \<open>
  Where the comparator is positive exactly when the first argument has the smaller key,
  the sort returns the list in descending order of the key.
\<close>

lemma sorted_insert_sorted:
  fixes key :: "'a \<Rightarrow> 'k :: linorder"
  assumes "\<forall>y \<in> set ys. js_gt (cmp x y) 0 = (key x < key y)"
      and "sorted_wrt (\<lambda>a b. key b \<le> key a) ys"
  shows "sorted_wrt (\<lambda>a b. key b \<le> key a) (insert_sorted cmp x ys)"
  using assms
proof (induction ys)
  case Nil
  then show ?case by simp
next
  case (Cons y ys)
  show ?case
  proof (cases "js_gt (cmp x y) 0")
    case True
    with Cons.prems have lt: "key x < key y" by simp
    have "sorted_wrt (\<lambda>a b. key b \<le> key a) (insert_sorted cmp x ys)"
      using Cons.IH Cons.prems by simp
    moreover have "\<forall>z \<in> set (insert_sorted cmp x ys). key z \<le> key y"
      using Cons.prems(2) lt by (auto simp: set_insert_sorted)
    ultimately show ?thesis using True by simp
  next
    case False
    with Cons.prems have "\<not> key x < key y" by simp
    then have ge: "key y \<le> key x" by (simp add: not_less)
    have "\<forall>z \<in> set ys. key z \<le> key y" using Cons.prems(2) by simp
    with ge have "\<forall>z \<in> set (y # ys). key z \<le> key x" by auto
    with Cons.prems(2) False show ?thesis by simp
  qed
qed

lemma sorted_js_sort:
  fixes key :: "'a \<Rightarrow> 'k :: linorder"
  assumes "\<forall>x \<in> set xs. \<forall>y \<in> set xs. js_gt (cmp x y) 0 = (key x < key y)"
  shows "sorted_wrt (\<lambda>a b. key b \<le> key a) (js_sort cmp xs)"
  using assms unfolding js_sort_def
proof (induction xs)
  case Nil
  then show ?case by simp
next
  case (Cons x xs)
  have "sorted_wrt (\<lambda>a b. key b \<le> key a) (foldr (insert_sorted cmp) xs [])"
    using Cons by simp
  moreover have "\<forall>y \<in> set (foldr (insert_sorted cmp) xs []). js_gt (cmp x y) 0 = (key x < key y)"
    using Cons.prems set_js_sort [of cmp xs] by (simp add: js_sort_def)
  ultimately show ?case by (simp add: sorted_insert_sorted)
qed

section \<open>The cluster summarizer\<close>



lemma extract_loop_Inr_iff:
  "(\<exists>r. extract_loop obs acc = Inr r) \<longleftrightarrow> (\<forall>ob \<in> set obs. content ob \<noteq> None)"
proof (induction obs arbitrary: acc)
  case Nil
  obtain s a o' where "acc = (s, a, o')" by (metis prod_cases3)
  then show ?case by simp
next
  case (Cons ob obs)
  obtain s a o' where acc: "acc = (s, a, o')" by (metis prod_cases3)
  show ?case
  proof (cases "content ob")
    case None
    then show ?thesis by (simp add: acc)
  next
    case (Some c)
    then show ?thesis
      using Cons.IH by (simp add: acc Let_def)
  qed
qed

lemma generateSummary_Inr_iff:
  "(\<exists>s. generateSummary obs = Inr s) \<longleftrightarrow> (\<forall>ob \<in> set obs. content ob \<noteq> None)"
proof -
  have "(\<exists>s. generateSummary obs = Inr s) \<longleftrightarrow> (\<exists>r. extract_loop obs ([], [], []) = Inr r)"
    by (cases "extract_loop obs ([], [], [])") (auto simp: generateSummary_def Let_def split: prod.splits)
  then show ?thesis by (simp only: extract_loop_Inr_iff)
qed


lemma compressCluster_None_iff:
  "compressCluster cluster ename cat = None
     \<longleftrightarrow> cluster = [] \<or> (\<exists>ob \<in> set cluster. content ob = None)"
proof (cases "js_sort newest_first cluster")
  case Nil
  then have "cluster = []" by (simp add: js_sort_Nil_iff)
  with Nil show ?thesis by (simp add: compressCluster_def compressCluster_body_def)
next
  case (Cons newest others)
  then have ne: "cluster \<noteq> []" using js_sort_Nil_iff [of newest_first cluster] by auto
  have "(\<exists>s. generateSummary (js_sort newest_first cluster) = Inr s)
          \<longleftrightarrow> (\<forall>ob \<in> set cluster. content ob \<noteq> None)"
    by (simp only: generateSummary_Inr_iff set_js_sort)
  then show ?thesis
    using ne Cons
    by (cases "generateSummary (js_sort newest_first cluster)")
       (auto simp: compressCluster_def compressCluster_body_def Let_def Cons)
qed







section \<open>The observation filter\<close>

lemma eligible_code:
  "eligible eng now item \<longleftrightarrow>
     \<not> (preserveCritical (options eng) \<and> is_critical (observation item))
     \<and> \<not> confidence_below (confidence (observation item))
            (compression_options.minConfidence (options eng))
     \<and> \<not> js_gt (ageInDays now (timestamp (observation item))) (maxObservationAge (options eng))"
  by (auto simp: eligible_def confidence_below_def ageInDays_def date_diff_def ms_per_day_def
           split: option.splits)

lemma group_key_code:
  "group_key item
     = pending.entityName item @ '':'' @ category_or_general (observation.category (observation item))"
  by (simp add: group_key_def category_or_general_def)

lemma map_fst_push_observation: "map fst (push_observation k ob G) = map fst G"
  by (induction G) auto

lemma map_of_push_observation:
  "map_of (push_observation k ob G) k' =
     (if k' = k
      then map_option (\<lambda>g. g\<lparr>observation_group.observations := observation_group.observations g @ [ob]\<rparr>)
             (map_of G k')
      else map_of G k')"
  by (induction G) auto

lemma survivors_skip:
  "\<not> eligible eng now item \<Longrightarrow> survivors eng now (seen @ [item]) k = survivors eng now seen k"
  by (simp add: survivors_def)

lemma survivors_other:
  "group_key item \<noteq> k \<Longrightarrow> survivors eng now (seen @ [item]) k = survivors eng now seen k"
  by (simp add: survivors_def)

lemma survivors_add:
  "eligible eng now item \<Longrightarrow> group_key item = k \<Longrightarrow>
     survivors eng now (seen @ [item]) k = survivors eng now seen k @ [item]"
  by (simp add: survivors_def)

lemma group_inv_skip:
  assumes "group_inv eng now seen G" and "\<not> eligible eng now item"
  shows "group_inv eng now (seen @ [item]) G"
  using assms(1) unfolding group_inv_def survivors_skip [OF assms(2)] .

lemma group_inv_add:
  assumes inv: "group_inv eng now seen G" and el: "eligible eng now item"
  defines "key \<equiv> group_key item"
  defines "G1 \<equiv> (if map_of G key = None
                   then G @ [(key,
                       \<lparr>observation_group.entityName = pending.entityName item,
                        observation_group.entityType = pending.entityType item,
                        observation_group.category = category_or_general (observation.category (observation item)),
                        observation_group.observations = []\<rparr>)]
                   else G)"
  shows "group_inv eng now (seen @ [item]) (push_observation key (observation item) G1)"
proof -
  from inv have dist: "distinct (map fst G)" by (simp add: group_inv_def)
  have inv_k: "case map_of G k of
               None \<Rightarrow> survivors eng now seen k = []
             | Some g \<Rightarrow>
                 survivors eng now seen k \<noteq> []
                 \<and> observation_group.observations g = map observation (survivors eng now seen k)
                 \<and> observation_group.entityName g = pending.entityName (hd (survivors eng now seen k))
                 \<and> observation_group.entityType g = pending.entityType (hd (survivors eng now seen k))
                 \<and> observation_group.category g
                     = category_or_general (observation.category (observation (hd (survivors eng now seen k))))" for k
    using inv by (simp add: group_inv_def)
  have none_key: "map_of G key = None \<Longrightarrow> key \<notin> set (map fst G)"
    by (simp add: map_of_eq_None_iff)
  have dist1: "distinct (map fst G1)"
    using dist none_key by (auto simp: G1_def)
  have "distinct (map fst (push_observation key (observation item) G1))"
    using dist1 by (simp add: map_fst_push_observation)
  moreover have "case map_of (push_observation key (observation item) G1) k of
               None \<Rightarrow> survivors eng now (seen @ [item]) k = []
             | Some g \<Rightarrow>
                 survivors eng now (seen @ [item]) k \<noteq> []
                 \<and> observation_group.observations g = map observation (survivors eng now (seen @ [item]) k)
                 \<and> observation_group.entityName g = pending.entityName (hd (survivors eng now (seen @ [item]) k))
                 \<and> observation_group.entityType g = pending.entityType (hd (survivors eng now (seen @ [item]) k))
                 \<and> observation_group.category g
                     = category_or_general (observation.category (observation (hd (survivors eng now (seen @ [item]) k))))" for k
  proof (cases "k = key")
    case False
    then have a: "map_of (push_observation key (observation item) G1) k = map_of G k"
      by (auto simp: map_of_push_observation G1_def map_add_def split: option.splits)
    have b: "survivors eng now (seen @ [item]) k = survivors eng now seen k"
      using False by (simp add: survivors_other key_def)
    show ?thesis unfolding a b by (rule inv_k)
  next
    case True
    have sv: "survivors eng now (seen @ [item]) k = survivors eng now seen k @ [item]"
      using True el by (simp add: survivors_add key_def)
    show ?thesis
    proof (cases "map_of G key")
      case None
      with inv_k [of key] have empty: "survivors eng now seen key = []" by simp
      from None have "map_of G1 key = Some
                       \<lparr>observation_group.entityName = pending.entityName item,
                        observation_group.entityType = pending.entityType item,
                        observation_group.category = category_or_general (observation.category (observation item)),
                        observation_group.observations = []\<rparr>"
        by (simp add: G1_def map_add_def)
      then show ?thesis
        using True empty sv by (simp add: map_of_push_observation)
    next
      case (Some g)
      with inv_k [of key] have g: "survivors eng now seen key \<noteq> []"
        "observation_group.observations g = map observation (survivors eng now seen key)"
        "observation_group.entityName g = pending.entityName (hd (survivors eng now seen key))"
        "observation_group.entityType g = pending.entityType (hd (survivors eng now seen key))"
        "observation_group.category g
           = category_or_general (observation.category (observation (hd (survivors eng now seen key))))"
        by simp_all
      from Some have "map_of G1 key = Some g" by (simp add: G1_def)
      then show ?thesis
        using True g sv by (simp add: map_of_push_observation)
    qed
  qed
  ultimately show ?thesis by (simp add: group_inv_def)
qed

lemma group_loop_inv:
  "group_inv eng now seen G \<Longrightarrow> group_inv eng now (seen @ items) (group_loop eng now items G)"
proof (induction items arbitrary: seen G)
  case Nil
  then show ?case by simp
next
  case (Cons item items)
  show ?case
  proof (cases "eligible eng now item")
    case False
    from group_inv_skip [OF Cons.prems False]
    have "group_inv eng now ((seen @ [item]) @ items) (group_loop eng now items G)"
      by (rule Cons.IH)
    moreover from False have "group_loop eng now (item # items) G = group_loop eng now items G"
      by (auto simp: eligible_code Let_def)
    ultimately show ?thesis by simp
  next
    case True
    from group_inv_add [OF Cons.prems True]
    have "group_inv eng now ((seen @ [item]) @ items)
            (group_loop eng now items
               (push_observation (group_key item) (observation item)
                  (if map_of G (group_key item) = None
                   then G @ [(group_key item,
                       \<lparr>observation_group.entityName = pending.entityName item,
                        observation_group.entityType = pending.entityType item,
                        observation_group.category = category_or_general (observation.category (observation item)),
                        observation_group.observations = []\<rparr>)]
                   else G)))"
      by (rule Cons.IH)
    moreover from True have "group_loop eng now (item # items) G =
            group_loop eng now items
               (push_observation (group_key item) (observation item)
                  (if map_of G (group_key item) = None
                   then G @ [(group_key item,
                       \<lparr>observation_group.entityName = pending.entityName item,
                        observation_group.entityType = pending.entityType item,
                        observation_group.category = category_or_general (observation.category (observation item)),
                        observation_group.observations = []\<rparr>)]
                   else G))"
      by (auto simp: eligible_code Let_def group_key_code)
    ultimately show ?thesis by simp
  qed
qed

lemma groupObservations_inv: "group_inv eng now items (groupObservations eng now items)"
proof -
  have "group_inv eng now [] []" by (simp add: group_inv_def survivors_def)
  from group_loop_inv [OF this, of items] show ?thesis
    by (simp add: groupObservations_def)
qed

section \<open>Groups below the threshold\<close>

lemma compress_groups_skip_small:
  "compress_groups eng G acc
     = compress_groups eng
         (filter (\<lambda>(k, g). compressionThreshold eng \<le> length (observation_group.observations g)) G) acc"
proof (induction G arbitrary: acc)
  case Nil
  then show ?case by simp
next
  case (Cons kg G)
  obtain k g where kg: "kg = (k, g)" by (cases kg)
  show ?case
  proof (cases "length (observation_group.observations g) < compressionThreshold eng")
    case True
    then show ?thesis using Cons.IH by (simp add: kg)
  next
    case False
    then show ?thesis using Cons.IH by (simp add: kg split: sum.splits)
  qed
qed

lemma compress_clusters_map_filter:
  "compress_clusters eng g clusters acc =
     acc @ List.map_filter
             (\<lambda>c. if compressionThreshold eng \<le> length c
                   then compressCluster c (observation_group.entityName g) (observation_group.category g)
                   else None) clusters"
  by (induction clusters arbitrary: acc) (auto simp: List.map_filter_simps split: option.splits)


lemma group_inv_member:
  assumes "group_inv eng now items G" and "(k, g) \<in> set G"
  shows "survivors eng now items k \<noteq> []
         \<and> observation_group.observations g = map observation (survivors eng now items k)
         \<and> observation_group.entityName g = pending.entityName (hd (survivors eng now items k))
         \<and> observation_group.entityType g = pending.entityType (hd (survivors eng now items k))
         \<and> observation_group.category g
             = category_or_general (observation.category (observation (hd (survivors eng now items k))))"
proof -
  from assms have "map_of G k = Some g" by (simp add: group_inv_def)
  moreover from assms(1) have "case map_of G k of
               None \<Rightarrow> survivors eng now items k = []
             | Some g \<Rightarrow>
                 survivors eng now items k \<noteq> []
                 \<and> observation_group.observations g = map observation (survivors eng now items k)
                 \<and> observation_group.entityName g = pending.entityName (hd (survivors eng now items k))
                 \<and> observation_group.entityType g = pending.entityType (hd (survivors eng now items k))
                 \<and> observation_group.category g
                     = category_or_general (observation.category (observation (hd (survivors eng now items k))))"
    by (simp add: group_inv_def)
  ultimately show ?thesis by simp
qed

lemma group_inv_key:
  assumes "group_inv eng now items G" and "survivors eng now items k \<noteq> []"
  shows "k \<in> fst ` set G"
proof -
  from assms(1) have "\<forall>k. case map_of G k of
               None \<Rightarrow> survivors eng now items k = []
             | Some g \<Rightarrow>
                 survivors eng now items k \<noteq> []
                 \<and> observation_group.observations g = map observation (survivors eng now items k)
                 \<and> observation_group.entityName g = pending.entityName (hd (survivors eng now items k))
                 \<and> observation_group.entityType g = pending.entityType (hd (survivors eng now items k))
                 \<and> observation_group.category g
                     = category_or_general (observation.category (observation (hd (survivors eng now items k))))"
    unfolding group_inv_def by (rule conjunct2)
  then have "case map_of G k of
               None \<Rightarrow> survivors eng now items k = []
             | Some g \<Rightarrow>
                 survivors eng now items k \<noteq> []
                 \<and> observation_group.observations g = map observation (survivors eng now items k)
                 \<and> observation_group.entityName g = pending.entityName (hd (survivors eng now items k))
                 \<and> observation_group.entityType g = pending.entityType (hd (survivors eng now items k))
                 \<and> observation_group.category g
                     = category_or_general (observation.category (observation (hd (survivors eng now items k))))"
    by (rule spec)
  with assms(2) obtain g where "map_of G k = Some g" by (cases "map_of G k") auto
  then have "(k, g) \<in> set G" by (rule map_of_SomeD)
  then show ?thesis by force
qed

text \<open>
  C4. An item takes part in compression iff it is eligible: not critical under critical
  preservation, its confidence not below \<open>minConfidence\<close>, its age not above
  \<open>maxObservationAge\<close> days (defaults 3 and 7). The groups have distinct keys; the group
  of a key \<open>entityName:category\<close> (\<open>general\<close> for a missing category) holds exactly the
  observations of the eligible items with that key, in input order, at least one; and
  every eligible item has its group. A group with fewer eligible observations than
  \<open>compressionThreshold\<close> (default 5) adds nothing to the output: the loop over the
  groups gives the same result without those groups, and the output is empty when every
  group is below the threshold.
\<close>

theorem filter_groups_threshold:
  "distinct (map fst (groupObservations eng now items))
   \<and> (\<forall>(k, g) \<in> set (groupObservations eng now items).
         observation_group.observations g
           = map observation (filter (\<lambda>it. eligible eng now it \<and> group_key it = k) items)
         \<and> observation_group.observations g \<noteq> []
         \<and> (\<exists>it \<in> set items. eligible eng now it \<and> group_key it = k
               \<and> observation_group.entityName g = pending.entityName it
               \<and> observation_group.entityType g = pending.entityType it))
   \<and> (\<forall>it \<in> set items. eligible eng now it \<longrightarrow>
         group_key it \<in> fst ` set (groupObservations eng now items))
   \<and> compress_groups eng (groupObservations eng now items) []
       = compress_groups eng
           (filter (\<lambda>(k, g). compressionThreshold eng \<le> length (observation_group.observations g))
              (groupObservations eng now items)) []
   \<and> ((\<forall>(k, g) \<in> set (groupObservations eng now items).
          length (observation_group.observations g) < compressionThreshold eng)
       \<longrightarrow> compressObservations eng now items = Inr [])
   \<and> compression_options.minConfidence (options default_engine) = 3
   \<and> maxObservationAge (options default_engine) = 7
   \<and> compressionThreshold default_engine = 5"
proof -
  let ?G = "groupObservations eng now items"
  have inv: "group_inv eng now items ?G" by (rule groupObservations_inv)
  have 1: "distinct (map fst ?G)" using inv by (simp add: group_inv_def)
  have 2: "\<forall>(k, g) \<in> set ?G.
         observation_group.observations g
           = map observation (filter (\<lambda>it. eligible eng now it \<and> group_key it = k) items)
         \<and> observation_group.observations g \<noteq> []
         \<and> (\<exists>it \<in> set items. eligible eng now it \<and> group_key it = k
               \<and> observation_group.entityName g = pending.entityName it
               \<and> observation_group.entityType g = pending.entityType it)"
  proof (clarify, intro conjI)
    fix k g assume kg: "(k, g) \<in> set ?G"
    note m = group_inv_member [OF inv kg]
    show "observation_group.observations g
           = map observation (filter (\<lambda>it. eligible eng now it \<and> group_key it = k) items)"
      using m by (simp add: survivors_def)
    show "observation_group.observations g \<noteq> []" using m by simp
    from m have "hd (survivors eng now items k) \<in> set (survivors eng now items k)" by simp
    then have "hd (survivors eng now items k) \<in> set items
        \<and> eligible eng now (hd (survivors eng now items k))
        \<and> group_key (hd (survivors eng now items k)) = k"
      by (simp add: survivors_def)
    with m show "\<exists>it \<in> set items. eligible eng now it \<and> group_key it = k
               \<and> observation_group.entityName g = pending.entityName it
               \<and> observation_group.entityType g = pending.entityType it"
      by blast
  qed
  have 3: "\<forall>it \<in> set items. eligible eng now it \<longrightarrow> group_key it \<in> fst ` set ?G"
  proof (intro ballI impI)
    fix it assume "it \<in> set items" "eligible eng now it"
    then have "it \<in> set (survivors eng now items (group_key it))" by (simp add: survivors_def)
    then have "survivors eng now items (group_key it) \<noteq> []" by auto
    with inv show "group_key it \<in> fst ` set ?G" by (rule group_inv_key)
  qed
  have 4: "compress_groups eng ?G []
       = compress_groups eng
           (filter (\<lambda>(k, g). compressionThreshold eng \<le> length (observation_group.observations g)) ?G) []"
    by (rule compress_groups_skip_small)
  have 5: "(\<forall>(k, g) \<in> set ?G.
          length (observation_group.observations g) < compressionThreshold eng)
       \<longrightarrow> compressObservations eng now items = Inr []"
  proof
    assume small: "\<forall>(k, g) \<in> set ?G. length (observation_group.observations g) < compressionThreshold eng"
    then have "filter (\<lambda>(k, g). compressionThreshold eng \<le> length (observation_group.observations g)) ?G = []"
      by (auto simp: filter_empty_conv)
    with 4 have "compress_groups eng ?G [] = Inr []" by simp
    then show "compressObservations eng now items = Inr []"
      by (simp add: compressObservations_def try_catch_def)
  qed
  have 6: "compression_options.minConfidence (options default_engine) = 3
   \<and> maxObservationAge (options default_engine) = 7
   \<and> compressionThreshold default_engine = 5"
    by (simp add: default_engine_def default_compression_options_def)
  from 1 2 3 4 5 6 show ?thesis by (intro conjI) simp_all
qed


theorem filter_groups_threshold_witness:
  "groupObservations default_engine 1000000000
     [example_pending ((example_observation ''User likes tea'' 913600000 5)\<lparr>is_critical := True\<rparr>),
      example_pending (example_observation ''User likes coffee'' 913600000 2),
      example_pending (example_observation ''User likes milk'' 308800000 5),
      example_pending (example_observation ''User likes water'' 913600000 5)]
   = [(''User:goal'',
       \<lparr>observation_group.entityName = ''User'', observation_group.entityType = ''Person'',
        observation_group.category = ''goal'',
        observation_group.observations = [example_observation ''User likes water'' 913600000 5]\<rparr>)]
   \<and> compressObservations default_engine 1000000000
     [example_pending ((example_observation ''User likes tea'' 913600000 5)\<lparr>is_critical := True\<rparr>),
      example_pending (example_observation ''User likes coffee'' 913600000 2),
      example_pending (example_observation ''User likes milk'' 308800000 5),
      example_pending (example_observation ''User likes water'' 913600000 5)]
   = Inr []"
proof -
  let ?items = "[example_pending ((example_observation ''User likes tea'' 913600000 5)\<lparr>is_critical := True\<rparr>),
      example_pending (example_observation ''User likes coffee'' 913600000 2),
      example_pending (example_observation ''User likes milk'' 308800000 5),
      example_pending (example_observation ''User likes water'' 913600000 5)]"
  have groups: "groupObservations default_engine 1000000000 ?items
   = [(''User:goal'',
       \<lparr>observation_group.entityName = ''User'', observation_group.entityType = ''Person'',
        observation_group.category = ''goal'',
        observation_group.observations = [example_observation ''User likes water'' 913600000 5]\<rparr>)]"
    by code_simp
  have small: "\<forall>(k, g) \<in> set (groupObservations default_engine 1000000000 ?items).
          length (observation_group.observations g) < compressionThreshold default_engine"
    unfolding groups by (simp add: default_engine_def)
  from filter_groups_threshold [of default_engine 1000000000 ?items] small
  have "compressObservations default_engine 1000000000 ?items = Inr []"
    by blast
  with groups show ?thesis by (intro conjI)
qed


section \<open>Clusters and the compression threshold\<close>

lemma compressCluster_Some_sources:
  assumes "compressCluster cluster ename cat = Some out"
  shows "source_observations out = map content (js_sort newest_first cluster)"
  using assms
  by (auto simp: compressCluster_def compressCluster_body_def Let_def
           split: sum.splits list.splits)

lemma similar_to_seed_contents:
  "similar_to_seed eng a b \<Longrightarrow> content a \<noteq> None \<and> content b \<noteq> None"
  by (auto simp: similar_to_seed_def calculateSimilarity_def split: sum.splits option.splits)

lemma clustered_members_have_content:
  assumes "clusterSimilarObservations eng obs = Inr clusters" and "c \<in> set clusters"
  shows "c \<noteq> [] \<and> (\<forall>m \<in> set c. content m \<noteq> None)"
proof -
  from assms have "c \<in> set (greedy_seed_clusters (similar_to_seed eng) obs)"
    using clusterSimilarObservations_greedy by blast
  from greedy_seed_clusters_members [OF this]
  have len: "2 \<le> length c" and sim: "\<forall>m \<in> set (tl c). similar_to_seed eng (hd c) m"
    by simp_all
  from len obtain x y ys where c: "c = x # y # ys"
    by (cases c; cases "tl c") auto
  from sim c have "similar_to_seed eng x y" by simp
  then have "content x \<noteq> None" by (simp add: similar_to_seed_contents)
  moreover from sim c have "\<forall>m \<in> set (y # ys). content m \<noteq> None"
    using similar_to_seed_contents by auto
  ultimately show ?thesis using c by simp
qed

lemma compress_clusters_all2:
  assumes "\<forall>c \<in> set clusters. c \<noteq> [] \<and> (\<forall>m \<in> set c. content m \<noteq> None)"
  shows "\<exists>outs. compress_clusters eng g clusters acc = acc @ outs
           \<and> list_all2 (\<lambda>c out. compressCluster c (observation_group.entityName g)
                                    (observation_group.category g) = Some out
                                \<and> length (source_observations out) = length c)
               (filter (\<lambda>c. compressionThreshold eng \<le> length c) clusters) outs"
  using assms
proof (induction clusters arbitrary: acc)
  case Nil
  then show ?case by simp
next
  case (Cons c clusters)
  from Cons.prems have rest: "\<forall>c \<in> set clusters. c \<noteq> [] \<and> (\<forall>m \<in> set c. content m \<noteq> None)"
    by simp
  from Cons.prems have "compressCluster c (observation_group.entityName g) (observation_group.category g) \<noteq> None"
    by (simp add: compressCluster_None_iff)
  then obtain out where out: "compressCluster c (observation_group.entityName g)
      (observation_group.category g) = Some out" by auto
  have len: "length (source_observations out) = length c"
    using compressCluster_Some_sources [OF out] by (simp add: length_js_sort)
  show ?case
  proof (cases "compressionThreshold eng \<le> length c")
    case True
    from Cons.IH [OF rest, of "acc @ [out]"] obtain outs where
      "compress_clusters eng g clusters (acc @ [out]) = (acc @ [out]) @ outs"
      and "list_all2 (\<lambda>c out. compressCluster c (observation_group.entityName g)
                                    (observation_group.category g) = Some out
                                \<and> length (source_observations out) = length c)
               (filter (\<lambda>c. compressionThreshold eng \<le> length c) clusters) outs"
      by blast
    with True out len show ?thesis
      by (intro exI [of _ "out # outs"]) simp
  next
    case False
    with Cons.IH [OF rest, of acc] show ?thesis by simp
  qed
qed

text \<open>
  C2, as the code has it. In a group with at least \<open>compressionThreshold\<close> eligible
  observations, every cluster that the clusterer returns has two or more members, and
  each cluster with at least \<open>compressionThreshold\<close> members is reduced to exactly one
  compressed observation, whose \<open>source_observations\<close> has one entry per member; the
  clusters with fewer members are dropped. The iteration of the loop over the groups
  appends exactly these compressed observations, in the order of the clusters.
\<close>

theorem clusters_at_threshold_are_compressed:
  assumes "compressionThreshold eng \<le> length (observation_group.observations g)"
      and "clusterSimilarObservations eng (observation_group.observations g) = Inr clusters"
  shows "(\<forall>c \<in> set clusters. 2 \<le> length c)
       \<and> (\<exists>outs.
            list_all2 (\<lambda>c out. compressCluster c (observation_group.entityName g)
                                   (observation_group.category g) = Some out
                               \<and> length (source_observations out) = length c)
              (filter (\<lambda>c. compressionThreshold eng \<le> length c) clusters) outs
            \<and> (\<forall>rest acc. compress_groups eng ((key, g) # rest) acc
                              = compress_groups eng rest (acc @ outs)))"
proof
  show "\<forall>c \<in> set clusters. 2 \<le> length c"
    using greedy_seed_clusters_members clusterSimilarObservations_greedy [OF assms(2)] by blast
next
  have "\<forall>c \<in> set clusters. c \<noteq> [] \<and> (\<forall>m \<in> set c. content m \<noteq> None)"
    using clustered_members_have_content [OF assms(2)] by blast
  from compress_clusters_all2 [OF this, of eng g "[]"] obtain outs where
    outs: "compress_clusters eng g clusters [] = outs"
    and all2: "list_all2 (\<lambda>c out. compressCluster c (observation_group.entityName g)
                                   (observation_group.category g) = Some out
                               \<and> length (source_observations out) = length c)
              (filter (\<lambda>c. compressionThreshold eng \<le> length c) clusters) outs"
    by auto
  have "compress_clusters eng g clusters acc = acc @ outs" for acc
    using outs by (simp add: compress_clusters_map_filter)
  then have "compress_groups eng ((key, g) # rest) acc = compress_groups eng rest (acc @ outs)"
    for rest acc
    using assms by simp
  with all2 show "\<exists>outs.
            list_all2 (\<lambda>c out. compressCluster c (observation_group.entityName g)
                                   (observation_group.category g) = Some out
                               \<and> length (source_observations out) = length c)
              (filter (\<lambda>c. compressionThreshold eng \<le> length c) clusters) outs
            \<and> (\<forall>rest acc. compress_groups eng ((key, g) # rest) acc
                              = compress_groups eng rest (acc @ outs))"
    by blast
qed

text \<open>
  C2 as stated fails: with \<open>compressionThreshold = 3\<close> a group of three eligible
  observations has a cluster of two, and nothing is compressed.
\<close>

theorem small_cluster_not_compressed:
  "map (\<lambda>(k, g). length (observation_group.observations g))
     (groupObservations (example_engine 3 (6 / 10)) 1000000000
        [example_pending (example_observation ''memory system design'' 913600000 5),
         example_pending (example_observation ''memory system design'' 913600001 5),
         example_pending (example_observation ''unrelated words here'' 913600002 5)]) = [3]
   \<and> compressionThreshold (example_engine 3 (6 / 10)) = 3
   \<and> clusterSimilarObservations (example_engine 3 (6 / 10))
        [example_observation ''memory system design'' 913600000 5,
         example_observation ''memory system design'' 913600001 5,
         example_observation ''unrelated words here'' 913600002 5]
      = Inr [[example_observation ''memory system design'' 913600000 5,
              example_observation ''memory system design'' 913600001 5]]
   \<and> compressObservations (example_engine 3 (6 / 10)) 1000000000
        [example_pending (example_observation ''memory system design'' 913600000 5),
         example_pending (example_observation ''memory system design'' 913600001 5),
         example_pending (example_observation ''unrelated words here'' 913600002 5)] = Inr []"
  by code_simp


theorem clusters_at_threshold_are_compressed_witness:
  "compressObservations (example_engine 2 (2 / 10)) 1000000000
     [example_pending (example_observation ''User asked about memory'' 913600000 5),
      example_pending (example_observation ''User questioned about storage'' 913600001 5)]
   = Inr [\<lparr>content = Some ''User questioned about (observed 2 times)'',
            timestamp = Some 913600001, confidence = Some 5,
            observation.category = Some ''goal'', is_critical = False,
            source_observations =
              [Some ''User questioned about storage'', Some ''User asked about memory''],
            time_window = None\<rparr>]
   \<and> compress_groups (example_engine 2 (2 / 10))
       [(''User:goal'',
         \<lparr>observation_group.entityName = ''User'', observation_group.entityType = ''Person'',
          observation_group.category = ''goal'',
          observation_group.observations =
            [example_observation ''User asked about memory'' 913600000 5,
             example_observation ''User questioned about storage'' 913600001 5]\<rparr>)] []
     = Inr [\<lparr>content = Some ''User questioned about (observed 2 times)'',
            timestamp = Some 913600001, confidence = Some 5,
            observation.category = Some ''goal'', is_critical = False,
            source_observations =
              [Some ''User questioned about storage'', Some ''User asked about memory''],
            time_window = None\<rparr>]"
proof -
  let ?eng = "example_engine 2 (2 / 10)"
  let ?o1 = "example_observation ''User asked about memory'' 913600000 5"
  let ?o2 = "example_observation ''User questioned about storage'' 913600001 5"
  let ?g = "\<lparr>observation_group.entityName = ''User'', observation_group.entityType = ''Person'',
          observation_group.category = ''goal'',
          observation_group.observations = [?o1, ?o2]\<rparr>"
  let ?out = "\<lparr>content = Some ''User questioned about (observed 2 times)'',
            timestamp = Some 913600001, confidence = Some 5,
            observation.category = Some ''goal'', is_critical = False,
            source_observations =
              [Some ''User questioned about storage'', Some ''User asked about memory''],
            time_window = None\<rparr>"
  have top: "compressObservations ?eng 1000000000 [example_pending ?o1, example_pending ?o2]
      = Inr [?out]"
    by code_simp
  have thr: "compressionThreshold ?eng \<le> length (observation_group.observations ?g)"
    by (simp add: example_engine_def)
  have cl: "clusterSimilarObservations ?eng (observation_group.observations ?g) = Inr [[?o1, ?o2]]"
    by code_simp
  have cc: "compressCluster [?o1, ?o2] ''User'' ''goal'' = Some ?out"
    by code_simp
  from clusters_at_threshold_are_compressed [OF thr cl, of "''User:goal''"]
  obtain outs where
    all2: "list_all2 (\<lambda>c out. compressCluster c (observation_group.entityName ?g)
                                   (observation_group.category ?g) = Some out
                               \<and> length (source_observations out) = length c)
              (filter (\<lambda>c. compressionThreshold ?eng \<le> length c) [[?o1, ?o2]]) outs"
    and loop: "\<forall>rest acc. compress_groups ?eng ((''User:goal'', ?g) # rest) acc
                              = compress_groups ?eng rest (acc @ outs)"
    by blast
  have "filter (\<lambda>c. compressionThreshold ?eng \<le> length c) [[?o1, ?o2]] = [[?o1, ?o2]]"
    by (simp add: example_engine_def)
  with all2 cc have "outs = [?out]"
    by (auto simp: list_all2_Cons1)
  with loop have "compress_groups ?eng [(''User:goal'', ?g)] [] = Inr [?out]"
    by simp
  with top show ?thesis by (intro conjI)
qed


section \<open>Ranking by score\<close>

lemma is_finite_iff: "is_finite x \<longleftrightarrow> (\<exists>r. x = Finite r)"
  by (cases x) simp_all

lemma js_sort_by_score_sorted:
  assumes "\<forall>x \<in> set xs. is_finite (sc x)"
  shows "sorted_wrt (\<lambda>a b. js_geq (sc a) (sc b)) (js_sort (\<lambda>a b. js_minus (sc b) (sc a)) xs)"
proof -
  let ?key = "\<lambda>x. js_value (sc x)"
  let ?s = "js_sort (\<lambda>a b. js_minus (sc b) (sc a)) xs"
  have "js_gt (js_minus (sc y) (sc x)) 0 = (?key x < ?key y)"
    if "x \<in> set xs" "y \<in> set xs" for x y
  proof -
    from assms that have "is_finite (sc x)" "is_finite (sc y)" by simp_all
    then obtain rx ry where "sc x = Finite rx" "sc y = Finite ry"
      unfolding is_finite_iff by blast
    then show ?thesis by (simp add: js_minus_def)
  qed
  then have "\<forall>x \<in> set xs. \<forall>y \<in> set xs. js_gt (js_minus (sc y) (sc x)) 0 = (?key x < ?key y)"
    by blast
  then have "sorted_wrt (\<lambda>a b. ?key b \<le> ?key a) ?s"
    by (rule sorted_js_sort)
  then show ?thesis
  proof (rule sorted_wrt_mono_rel [rotated])
    fix a b assume "a \<in> set ?s" "b \<in> set ?s" and le: "?key b \<le> ?key a"
    with assms have "is_finite (sc a)" "is_finite (sc b)" by (simp_all add: set_js_sort)
    then obtain ra rb where "sc a = Finite ra" "sc b = Finite rb"
      unfolding is_finite_iff by blast
    with le show "js_geq (sc a) (sc b)" by simp
  qed
qed

lemma recency_decay_finite:
  "window \<noteq> 0 \<Longrightarrow> js_max0 (recency_decay days window) = Finite (max 0 (1 - days / window))"
  by (simp add: recency_decay_def js_divide_def js_minus_def)

lemma calculateRecencyScore_finite:
  "retrieval_options.recencyWindow opts \<noteq> 0 \<Longrightarrow> is_finite (calculateRecencyScore opts now e)"
  by (simp add: calculateRecencyScore_def recency_decay_finite Let_def split: option.splits)

lemma scoreEntities_finite:
  assumes "retrieval_options.recencyWindow opts \<noteq> 0"
  shows "\<forall>e \<in> set (scoreEntities stringify opts now es keywords). is_finite (scored_entity.score e)"
proof -
  have "is_finite (js_plus (js_plus (Finite a) (js_scale w (calculateRecencyScore opts now e))) (Finite c))"
    for a w c e
    using calculateRecencyScore_finite [OF assms, of now e]
    by (auto simp: is_finite_iff)
  then show ?thesis
    by (auto simp: scoreEntities_def Let_def)
qed

lemma scoreRelations_finite:
  assumes "retrieval_options.recencyWindow opts \<noteq> 0"
  shows "\<forall>r \<in> set (scoreRelations opts now rels tops). is_finite (scored_relation.score r)"
  using assms
  by (auto simp: scoreRelations_def Let_def recency_decay_def js_divide_def js_minus_def
           split: option.splits)

text \<open>
  C6. For a recency window other than 0, every call of \<open>retrieveRelevantMemories\<close>
  returns a result with at most \<open>maxEntities\<close> entities and at most \<open>maxRelations\<close>
  relations (the options of the call merged over those of the service; 10 and 20 by
  default), and in both lists the scores are descending.
\<close>

theorem retrieval_is_bounded_and_ranked:
  assumes "retrieval_options.recencyWindow opts \<noteq> 0"
  shows "\<exists>res. retrieveRelevantMemories stringify opts now kg ctx targets ov = Inr res
     \<and> length (retrieval_result.entities res) \<le> retrieval_options.maxEntities (merge_options opts ov)
     \<and> length (retrieval_result.relations res) \<le> retrieval_options.maxRelations (merge_options opts ov)
     \<and> sorted_wrt (\<lambda>a b. js_geq (scored_entity.score a) (scored_entity.score b))
         (retrieval_result.entities res)
     \<and> sorted_wrt (\<lambda>a b. js_geq (scored_relation.score a) (scored_relation.score b))
         (retrieval_result.relations res)
     \<and> retrieval_options.maxEntities (merge_options default_retrieval_options no_overrides) = 10
     \<and> retrieval_options.maxRelations (merge_options default_retrieval_options no_overrides) = 20"
proof (cases "retrieveRelevantMemories_body stringify opts now kg ctx targets ov")
  case (Inl e)
  then show ?thesis
    by (simp add: retrieveRelevantMemories_def try_catch_def merge_options_def
                  default_retrieval_options_def no_overrides_def)
next
  case (Inr res)
  let ?ro = "merge_options opts ov"
  from Inr obtain kws es rels where
    ents: "retrieval_result.entities res =
       map (\<lambda>e. \<lparr>name = name e, entity.entityType = entity.entityType e,
                 entity.observations =
                   Some (filterAndSortObservations now
                     (case entity.observations e of None \<Rightarrow> [] | Some obs \<Rightarrow> obs) kws ?ro),
                 scored_entity.score = scored_entity.score e, scores = scores e\<rparr>)
         (take (retrieval_options.maxEntities ?ro)
            (js_sort (\<lambda>a b. js_minus (scored_entity.score b) (scored_entity.score a))
               (scoreEntities stringify opts now es kws)))"
    and rls: "retrieval_result.relations res =
       take (retrieval_options.maxRelations ?ro)
         (js_sort (\<lambda>a b. js_minus (scored_relation.score b) (scored_relation.score a))
            (scoreRelations opts now rels
               (take (retrieval_options.maxEntities ?ro)
                  (js_sort (\<lambda>a b. js_minus (scored_entity.score b) (scored_entity.score a))
                     (scoreEntities stringify opts now es kws)))))"
    unfolding retrieveRelevantMemories_body_def Let_def
    by (auto split: sum.splits if_splits)
  have res: "retrieveRelevantMemories stringify opts now kg ctx targets ov = Inr res"
    using Inr by (simp add: retrieveRelevantMemories_def try_catch_def)
  have l1: "length (retrieval_result.entities res) \<le> retrieval_options.maxEntities ?ro"
    by (simp add: ents)
  have l2: "length (retrieval_result.relations res) \<le> retrieval_options.maxRelations ?ro"
    by (simp add: rls)
  have s1: "sorted_wrt (\<lambda>a b. js_geq (scored_entity.score a) (scored_entity.score b))
         (retrieval_result.entities res)"
    unfolding ents
    by (simp add: sorted_wrt_map sorted_wrt_take js_sort_by_score_sorted
                  scoreEntities_finite [OF assms])
  have s2: "sorted_wrt (\<lambda>a b. js_geq (scored_relation.score a) (scored_relation.score b))
         (retrieval_result.relations res)"
    unfolding rls
    by (simp add: sorted_wrt_take js_sort_by_score_sorted scoreRelations_finite [OF assms])
  have d: "retrieval_options.maxEntities (merge_options default_retrieval_options no_overrides) = 10
     \<and> retrieval_options.maxRelations (merge_options default_retrieval_options no_overrides) = 20"
    by (simp add: merge_options_def default_retrieval_options_def no_overrides_def)
  from res l1 l2 s1 s2 d show ?thesis by blast
qed


theorem retrieval_is_bounded_and_ranked_witness:
  "retrieval_options.recencyWindow default_retrieval_options \<noteq> 0
   \<and> map_sum id (\<lambda>res. (map name (retrieval_result.entities res),
                          map scored_entity.score (retrieval_result.entities res),
                          map scored_relation.score (retrieval_result.relations res)))
       (retrieveRelevantMemories example_stringify default_retrieval_options 1000000000
          example_graph (ContextString ''the memory system of Bob'') [] no_overrides)
     = Inr ([''Alice'', ''Bob''], [Finite (99 / 100), Finite (1 / 2)],
            [Finite (112 / 75), Finite (112 / 75), Finite (1 / 2), Finite (1 / 2)])
   \<and> (\<exists>res. retrieveRelevantMemories example_stringify default_retrieval_options 1000000000
          example_graph (ContextString ''the memory system of Bob'') []
          (no_overrides\<lparr>option_overrides.maxEntities := Some 1\<rparr>) = Inr res
        \<and> length (retrieval_result.entities res) \<le> 1)"
proof -
  have w: "retrieval_options.recencyWindow default_retrieval_options \<noteq> 0"
    by (simp add: default_retrieval_options_def)
  have run: "map_sum id (\<lambda>res. (map name (retrieval_result.entities res),
                          map scored_entity.score (retrieval_result.entities res),
                          map scored_relation.score (retrieval_result.relations res)))
       (retrieveRelevantMemories example_stringify default_retrieval_options 1000000000
          example_graph (ContextString ''the memory system of Bob'') [] no_overrides)
     = Inr ([''Alice'', ''Bob''], [Finite (99 / 100), Finite (1 / 2)],
            [Finite (112 / 75), Finite (112 / 75), Finite (1 / 2), Finite (1 / 2)])"
    by code_simp
  have one: "retrieval_options.maxEntities
               (merge_options default_retrieval_options
                  (no_overrides\<lparr>option_overrides.maxEntities := Some 1\<rparr>)) = 1"
    by (simp add: merge_options_def no_overrides_def)
  from retrieval_is_bounded_and_ranked
         [OF w, of example_stringify 1000000000 example_graph
            "ContextString ''the memory system of Bob''" "[]"
            "no_overrides\<lparr>option_overrides.maxEntities := Some 1\<rparr>"]
  have "\<exists>res. retrieveRelevantMemories example_stringify default_retrieval_options 1000000000
          example_graph (ContextString ''the memory system of Bob'') []
          (no_overrides\<lparr>option_overrides.maxEntities := Some 1\<rparr>) = Inr res
        \<and> length (retrieval_result.entities res) \<le> 1"
    unfolding one by blast
  with w run show ?thesis by (intro conjI)
qed


section \<open>Recency\<close>

lemma recency_decay_decreasing:
  assumes "0 < window" and "d1 < d2" and "d1 < window"
  shows "js_value (js_max0 (recency_decay d2 window)) < js_value (js_max0 (recency_decay d1 window))"
proof -
  from assms have "d1 / window < d2 / window" by (simp add: divide_strict_right_mono)
  moreover from assms have "d1 / window < 1" by simp
  ultimately have "max 0 (1 - d2 / window) < max 0 (1 - d1 / window)" by simp
  with assms(1) show ?thesis by (simp add: recency_decay_finite)
qed

lemma recency_decay_zero:
  assumes "0 < window" and "window \<le> d"
  shows "js_max0 (recency_decay d window) = Finite 0"
proof -
  from assms have "1 \<le> d / window" by simp
  with assms(1) show ?thesis by (simp add: recency_decay_finite)
qed

lemma daysSince_old:
  assumes "0 < window" and "window * ms_per_day \<le> real_of_int now" and "t \<le> 0"
  shows "window \<le> daysSince now t"
proof -
  have pos: "0 < ms_per_day" by (simp add: ms_per_day_def)
  from assms(3) have "real_of_int now \<le> real_of_int (now - t)" by simp
  with assms(2) have "window * ms_per_day \<le> real_of_int (now - t)" by simp
  with pos show ?thesis by (simp add: daysSince_def pos_le_divide_eq)
qed

text \<open>
  C7. For a positive recency window (30 days by default), and a clock that is at least
  one window past the epoch: the recency score of an entity without a timestamped
  observation is 0; otherwise it is \<open>max(0, 1 - daysSince / recencyWindow)\<close> for the
  days since the most recent timestamp. The score \<open>max(0, 1 - d / recencyWindow)\<close> is
  strictly decreasing in \<open>d\<close> below the window and is 0 from the window on.
\<close>

theorem recency_score_formula:
  assumes w: "0 < retrieval_options.recencyWindow opts"
      and clock: "retrieval_options.recencyWindow opts * ms_per_day \<le> real_of_int now"
  shows "((\<forall>ob \<in> set (case entity.observations e of None \<Rightarrow> [] | Some obs \<Rightarrow> obs). timestamp ob = None)
            \<longrightarrow> calculateRecencyScore opts now e = Finite 0)
       \<and> ((\<exists>ob \<in> set (case entity.observations e of None \<Rightarrow> [] | Some obs \<Rightarrow> obs). timestamp ob \<noteq> None)
            \<longrightarrow> calculateRecencyScore opts now e
                  = Finite (max 0 (1 - daysSince now
                        (Max {t. \<exists>ob \<in> set (case entity.observations e of None \<Rightarrow> [] | Some obs \<Rightarrow> obs).
                                    timestamp ob = Some t})
                      / retrieval_options.recencyWindow opts)))
       \<and> (\<forall>d. js_max0 (recency_decay d (retrieval_options.recencyWindow opts))
                = Finite (max 0 (1 - d / retrieval_options.recencyWindow opts)))
       \<and> (\<forall>d1 d2. d1 < d2 \<and> d1 < retrieval_options.recencyWindow opts \<longrightarrow>
              js_value (js_max0 (recency_decay d2 (retrieval_options.recencyWindow opts)))
                < js_value (js_max0 (recency_decay d1 (retrieval_options.recencyWindow opts))))
       \<and> (\<forall>d. retrieval_options.recencyWindow opts \<le> d \<longrightarrow>
              js_max0 (recency_decay d (retrieval_options.recencyWindow opts)) = Finite 0)
       \<and> retrieval_options.recencyWindow default_retrieval_options = 30"
proof (intro conjI impI allI)
  let ?w = "retrieval_options.recencyWindow opts"
  define obs where "obs = (case entity.observations e of None \<Rightarrow> [] | Some obs \<Rightarrow> obs)"
  define ts where "ts = filter (\<lambda>t. t > 0) (map (\<lambda>ob. case timestamp ob of Some t \<Rightarrow> t | None \<Rightarrow> 0) obs)"
  define A where "A = {t. \<exists>ob \<in> set obs. timestamp ob = Some t}"
  have code: "calculateRecencyScore opts now e =
      (if ts = [] then Finite 0 else js_max0 (recency_decay (daysSince now (Max (set ts))) ?w))"
    unfolding ts_def obs_def
    by (cases "entity.observations e") (simp_all add: calculateRecencyScore_def Let_def)
  have wne: "?w \<noteq> 0" using w by simp
  have none: "calculateRecencyScore opts now e = Finite 0"
    if "\<forall>ob \<in> set obs. timestamp ob = None"
  proof -
    from that have "ts = []" by (auto simp: ts_def filter_empty_conv)
    then show ?thesis by (simp add: code)
  qed
  have some: "calculateRecencyScore opts now e = Finite (max 0 (1 - daysSince now (Max A) / ?w))"
    if "\<exists>ob \<in> set obs. timestamp ob \<noteq> None"
  proof -
    have "A \<subseteq> (\<lambda>ob. case timestamp ob of Some t \<Rightarrow> t | None \<Rightarrow> 0) ` set obs"
      by (force simp: A_def)
    then have finA: "finite A" by (rule finite_subset) simp
    have neA: "A \<noteq> {}" using that by (auto simp: A_def)
    have P: "set ts = {t \<in> A. t > 0}"
      by (force simp: ts_def A_def split: option.splits)
    show ?thesis
    proof (cases "ts = []")
      case True
      with P have "{t \<in> A. t > 0} = {}" by simp
      then have "\<forall>t \<in> A. t \<le> 0" by (auto simp: not_less [symmetric])
      moreover have "Max A \<in> A" using finA neA by (rule Max_in)
      ultimately have "Max A \<le> 0" by blast
      from daysSince_old [OF w clock this] have "?w \<le> daysSince now (Max A)" .
      then have "1 \<le> daysSince now (Max A) / ?w" using w by simp
      then have "max 0 (1 - daysSince now (Max A) / ?w) = 0" by simp
      with True show ?thesis by (simp add: code)
    next
      case False
      then have neP: "{t \<in> A. t > 0} \<noteq> {}" using P by (metis set_empty)
      have finP: "finite {t \<in> A. t > 0}" using finA by simp
      have "Max {t \<in> A. t > 0} = Max A"
      proof (rule antisym)
        show "Max {t \<in> A. t > 0} \<le> Max A"
          by (rule Max_mono) (use neP finA in auto)
        have "Max {t \<in> A. t > 0} \<in> {t \<in> A. t > 0}" using finP neP by (rule Max_in)
        then have pos: "0 < Max {t \<in> A. t > 0}" by simp
        show "Max A \<le> Max {t \<in> A. t > 0}"
        proof (rule Max.boundedI [OF finA neA])
          fix a assume a: "a \<in> A"
          show "a \<le> Max {t \<in> A. t > 0}"
          proof (cases "a > 0")
            case True
            with a have "a \<in> {t \<in> A. t > 0}" by simp
            with finP show ?thesis by (rule Max_ge)
          next
            case False
            with pos show ?thesis by simp
          qed
        qed
      qed
      with False show ?thesis
        by (simp add: code P recency_decay_finite [OF wne])
    qed
  qed
  show "calculateRecencyScore opts now e = Finite 0"
    if "\<forall>ob \<in> set (case entity.observations e of None \<Rightarrow> [] | Some obs \<Rightarrow> obs). timestamp ob = None"
    using none that unfolding obs_def by blast
  show "calculateRecencyScore opts now e
          = Finite (max 0 (1 - daysSince now
               (Max {t. \<exists>ob \<in> set (case entity.observations e of None \<Rightarrow> [] | Some obs \<Rightarrow> obs).
                          timestamp ob = Some t}) / ?w))"
    if "\<exists>ob \<in> set (case entity.observations e of None \<Rightarrow> [] | Some obs \<Rightarrow> obs). timestamp ob \<noteq> None"
    using some that unfolding A_def obs_def by blast
  show "js_max0 (recency_decay d ?w) = Finite (max 0 (1 - d / ?w))" for d
    using wne by (rule recency_decay_finite)
  show "js_value (js_max0 (recency_decay d2 ?w)) < js_value (js_max0 (recency_decay d1 ?w))"
    if "d1 < d2 \<and> d1 < ?w" for d1 d2
    using w that by (simp add: recency_decay_decreasing)
  show "js_max0 (recency_decay d ?w) = Finite 0" if "?w \<le> d" for d
    using w that by (rule recency_decay_zero)
  show "retrieval_options.recencyWindow default_retrieval_options = 30"
    by (simp add: default_retrieval_options_def)
qed

theorem recency_score_formula_witness:
  "0 < retrieval_options.recencyWindow default_retrieval_options
   \<and> retrieval_options.recencyWindow default_retrieval_options * ms_per_day
       \<le> real_of_int 1700000000000
   \<and> calculateRecencyScore default_retrieval_options 1700000000000
       \<lparr>name = ''Carol'', entity.entityType = ''Person'',
        entity.observations = Some [(example_observation ''Carol sings'' 0 4)\<lparr>timestamp := None\<rparr>]\<rparr>
     = Finite 0
   \<and> calculateRecencyScore default_retrieval_options 1700000000000
       \<lparr>name = ''Carol'', entity.entityType = ''Person'',
        entity.observations =
          Some [example_observation ''Carol sings'' 1699000000000 4,
                example_observation ''Carol dances'' 1699740800000 4]\<rparr>
     = Finite (9 / 10)
   \<and> js_value (js_max0 (recency_decay 5 (retrieval_options.recencyWindow default_retrieval_options)))
       < js_value (js_max0 (recency_decay 3 (retrieval_options.recencyWindow default_retrieval_options)))
   \<and> js_max0 (recency_decay 30 (retrieval_options.recencyWindow default_retrieval_options)) = Finite 0"
proof -
  let ?carol = "\<lparr>name = ''Carol'', entity.entityType = ''Person'',
        entity.observations = Some [(example_observation ''Carol sings'' 0 4)\<lparr>timestamp := None\<rparr>]\<rparr>"
  have w: "0 < retrieval_options.recencyWindow default_retrieval_options"
    by (simp add: default_retrieval_options_def)
  have clock: "retrieval_options.recencyWindow default_retrieval_options * ms_per_day
       \<le> real_of_int 1700000000000"
    by (simp add: default_retrieval_options_def ms_per_day_def)
  note inst = recency_score_formula [OF w clock, of ?carol]
  have untimed: "\<forall>ob \<in> set (case entity.observations ?carol of None \<Rightarrow> [] | Some obs \<Rightarrow> obs).
                    timestamp ob = None"
    by (simp add: example_observation_def)
  from inst untimed have zero: "calculateRecencyScore default_retrieval_options 1700000000000 ?carol = Finite 0"
    by blast
  have three: "calculateRecencyScore default_retrieval_options 1700000000000
       \<lparr>name = ''Carol'', entity.entityType = ''Person'',
        entity.observations =
          Some [example_observation ''Carol sings'' 1699000000000 4,
                example_observation ''Carol dances'' 1699740800000 4]\<rparr>
     = Finite (9 / 10)"
    by code_simp
  have w3: "(3 :: real) < 5 \<and> 3 < retrieval_options.recencyWindow default_retrieval_options"
    by (simp add: default_retrieval_options_def)
  from inst w3 have dec:
    "js_value (js_max0 (recency_decay 5 (retrieval_options.recencyWindow default_retrieval_options)))
       < js_value (js_max0 (recency_decay 3 (retrieval_options.recencyWindow default_retrieval_options)))"
    by blast
  have "retrieval_options.recencyWindow default_retrieval_options \<le> 30"
    by (simp add: default_retrieval_options_def)
  with inst have out: "js_max0 (recency_decay 30 (retrieval_options.recencyWindow default_retrieval_options)) = Finite 0"
    by blast
  from w clock zero three dec out show ?thesis by (intro conjI)
qed


section \<open>Critical memories\<close>





section \<open>Filtering and sorting observations\<close>

lemma length_filterAndSortObservations:
  "length (filterAndSortObservations now obs kws ro)
     \<le> retrieval_options.maxObservationsPerEntity ro"
  by (simp add: filterAndSortObservations_def Let_def)

lemma filterAndSortObservations_member:
  assumes "so \<in> set (filterAndSortObservations now obs kws ro)"
  shows "\<exists>ob \<in> set obs. retrieval_options.minConfidence ro \<le> confidence_or 0 ob
           \<and> content so = content ob \<and> timestamp so = timestamp ob
           \<and> confidence so = confidence ob
           \<and> observation.category so = observation.category ob
           \<and> is_critical so = is_critical ob"
proof (cases "obs = []")
  case True
  with assms show ?thesis by (simp add: filterAndSortObservations_def)
next
  case False
  obtain F :: "observation \<Rightarrow> js_number" where
    shape: "filterAndSortObservations now obs kws ro =
      take (retrieval_options.maxObservationsPerEntity ro)
        (js_sort (\<lambda>a b. js_minus (scored_observation.score b) (scored_observation.score a))
           (map (\<lambda>ob. \<lparr>content = content ob, timestamp = timestamp ob, confidence = confidence ob,
                         observation.category = observation.category ob,
                         is_critical = is_critical ob, scored_observation.score = F ob\<rparr>)
              (filter (\<lambda>ob. confidence_or 0 ob \<ge> retrieval_options.minConfidence ro) obs)))"
    unfolding filterAndSortObservations_def Let_def using False by (simp only: if_False)
  let ?G = "\<lambda>ob. \<lparr>content = content ob, timestamp = timestamp ob, confidence = confidence ob,
                         observation.category = observation.category ob,
                         is_critical = is_critical ob, scored_observation.score = F ob\<rparr>"
  let ?P = "\<lambda>ob. confidence_or 0 ob \<ge> retrieval_options.minConfidence ro"
  from assms have "so \<in> set (js_sort (\<lambda>a b. js_minus (scored_observation.score b) (scored_observation.score a))
           (map ?G (filter ?P obs)))"
    unfolding shape by (rule in_set_takeD)
  then have "so \<in> ?G ` set (filter ?P obs)"
    by (simp only: set_js_sort set_map)
  then obtain ob where ob: "ob \<in> set (filter ?P obs)" and so: "so = ?G ob"
    by (rule imageE)
  from ob have "ob \<in> set obs" "?P ob" by simp_all
  moreover have "content so = content ob" "timestamp so = timestamp ob"
    "confidence so = confidence ob" "observation.category so = observation.category ob"
    "is_critical so = is_critical ob"
    by (simp_all add: so)
  ultimately show ?thesis by blast
qed

lemma confidence_or_0: "confidence_or 0 ob = (case confidence ob of None \<Rightarrow> 0 | Some c \<Rightarrow> c)"
  by (simp add: confidence_or_def split: option.splits)

text \<open>
  C10. Every entity that \<open>retrieveByCategory\<close> returns has at most
  \<open>maxObservationsPerEntity\<close> observations (5 by default); each of them is of the
  requested category and none has a confidence below \<open>minConfidence\<close> (3 by default;
  an observation without a confidence counts as confidence 0).
\<close>

theorem category_retrieval_filters_and_truncates:
  "\<exists>res. retrieveByCategory opts now kg cat entityNames ov = Inr res
     \<and> (\<forall>e \<in> set (category_result.entities res).
          \<exists>obs. entity.observations e = Some obs
             \<and> length obs \<le> retrieval_options.maxObservationsPerEntity (merge_options opts ov)
             \<and> (\<forall>ob \<in> set obs.
                   observation.category ob = Some cat
                   \<and> \<not> (\<exists>c. confidence ob = Some c
                              \<and> c < retrieval_options.minConfidence (merge_options opts ov))
                   \<and> (confidence ob = None
                        \<longrightarrow> retrieval_options.minConfidence (merge_options opts ov) \<le> 0)))
     \<and> retrieval_options.minConfidence (merge_options default_retrieval_options no_overrides) = 3
     \<and> retrieval_options.maxObservationsPerEntity (merge_options default_retrieval_options no_overrides) = 5"
proof -
  let ?ro = "merge_options opts ov"
  have d: "retrieval_options.minConfidence (merge_options default_retrieval_options no_overrides) = 3
     \<and> retrieval_options.maxObservationsPerEntity (merge_options default_retrieval_options no_overrides) = 5"
    by (simp add: merge_options_def default_retrieval_options_def no_overrides_def)
  show ?thesis
  proof (cases "retrieveByCategory_body opts now kg cat entityNames ov")
    case (Inl e)
    then show ?thesis using d
      by (simp add: retrieveByCategory_def try_catch_def)
  next
    case (Inr res)
    then have res: "retrieveByCategory opts now kg cat entityNames ov = Inr res"
      by (simp add: retrieveByCategory_def try_catch_def)
    have "\<exists>obs. entity.observations e = Some obs
             \<and> length obs \<le> retrieval_options.maxObservationsPerEntity ?ro
             \<and> (\<forall>ob \<in> set obs.
                   observation.category ob = Some cat
                   \<and> \<not> (\<exists>c. confidence ob = Some c \<and> c < retrieval_options.minConfidence ?ro)
                   \<and> (confidence ob = None \<longrightarrow> retrieval_options.minConfidence ?ro \<le> 0))"
      if e: "e \<in> set (category_result.entities res)" for e
    proof -
      let ?g = "\<lambda>e :: observation entity.
                  e\<lparr>entity.observations :=
                      Some (filter (\<lambda>ob. observation.category ob = Some cat)
                              (case entity.observations e of None \<Rightarrow> [] | Some obs \<Rightarrow> obs))\<rparr>"
      let ?f = "\<lambda>e :: observation entity.
                  \<lparr>name = name e, entity.entityType = entity.entityType e,
                   entity.observations =
                     Some (filterAndSortObservations now
                             (case entity.observations e of None \<Rightarrow> [] | Some obs \<Rightarrow> obs)
                             [] ?ro)\<rparr>"
      from Inr obtain es where
        ents: "category_result.entities res
                 = map ?f (filter (\<lambda>e. length (case entity.observations e of None \<Rightarrow> [] | Some obs \<Rightarrow> obs) > 0)
                             (map ?g es))"
        unfolding retrieveByCategory_body_def Let_def
        by (auto split: sum.splits)
      from e ents obtain e1 where
        e1: "e1 \<in> set (map ?g es)" and fe: "e = ?f e1"
        by auto
      from e1 obtain e0 where e0: "e0 \<in> set es" and ge: "e1 = ?g e0"
        by auto
      have obs: "entity.observations e = Some (filterAndSortObservations now
                     (filter (\<lambda>ob. observation.category ob = Some cat)
                        (case entity.observations e0 of None \<Rightarrow> [] | Some obs \<Rightarrow> obs)) [] ?ro)"
        by (simp add: fe ge)
      let ?in = "filter (\<lambda>ob. observation.category ob = Some cat)
                        (case entity.observations e0 of None \<Rightarrow> [] | Some obs \<Rightarrow> obs)"
      have "observation.category so = Some cat
            \<and> \<not> (\<exists>c. confidence so = Some c \<and> c < retrieval_options.minConfidence ?ro)
            \<and> (confidence so = None \<longrightarrow> retrieval_options.minConfidence ?ro \<le> 0)"
        if "so \<in> set (filterAndSortObservations now ?in [] ?ro)" for so
      proof -
        from filterAndSortObservations_member [OF that] obtain ob where
          "ob \<in> set ?in" and "retrieval_options.minConfidence ?ro \<le> confidence_or 0 ob"
          and "confidence so = confidence ob"
          and "observation.category so = observation.category ob"
          by blast
        then show ?thesis
          by (auto simp: confidence_or_0 split: option.splits)
      qed
      with obs show ?thesis
        using length_filterAndSortObservations [of now ?in "[]" ?ro] by blast
    qed
    with res d show ?thesis by blast
  qed
qed

theorem category_retrieval_filters_and_truncates_witness:
  "retrieveByCategory default_retrieval_options 1000000000 example_graph ''goal'' [] no_overrides
     = Inr \<lparr>category_result.category = ''goal'',
            category_result.entities =
              [\<lparr>name = ''Alice'', entity.entityType = ''Person'',
                entity.observations =
                  Some [\<lparr>content = Some ''Alice designs the memory system'',
                          timestamp = Some 913600000, confidence = Some 5,
                          observation.category = Some ''goal'', is_critical = False,
                          scored_observation.score = Finite (59 / 100)\<rparr>]\<rparr>,
               \<lparr>name = ''Bob'', entity.entityType = ''Person'',
                entity.observations =
                  Some [\<lparr>content = Some ''Bob is allergic to nuts'',
                          timestamp = Some 827200000, confidence = Some 5,
                          observation.category = Some ''goal'', is_critical = True,
                          scored_observation.score = Finite (27 / 25)\<rparr>]\<rparr>],
            category_result.error = None\<rparr>
   \<and> (\<exists>res. retrieveByCategory default_retrieval_options 1000000000 example_graph ''goal'' []
                no_overrides = Inr res
          \<and> list_all (\<lambda>e. \<exists>obs. entity.observations e = Some obs \<and> length obs \<le> 5)
               (category_result.entities res))"
proof -
  have run: "retrieveByCategory default_retrieval_options 1000000000 example_graph ''goal'' [] no_overrides
     = Inr \<lparr>category_result.category = ''goal'',
            category_result.entities =
              [\<lparr>name = ''Alice'', entity.entityType = ''Person'',
                entity.observations =
                  Some [\<lparr>content = Some ''Alice designs the memory system'',
                          timestamp = Some 913600000, confidence = Some 5,
                          observation.category = Some ''goal'', is_critical = False,
                          scored_observation.score = Finite (59 / 100)\<rparr>]\<rparr>,
               \<lparr>name = ''Bob'', entity.entityType = ''Person'',
                entity.observations =
                  Some [\<lparr>content = Some ''Bob is allergic to nuts'',
                          timestamp = Some 827200000, confidence = Some 5,
                          observation.category = Some ''goal'', is_critical = True,
                          scored_observation.score = Finite (27 / 25)\<rparr>]\<rparr>],
            category_result.error = None\<rparr>"
    by code_simp
  have five: "retrieval_options.maxObservationsPerEntity
                (merge_options default_retrieval_options no_overrides) = 5"
    by (simp add: merge_options_def default_retrieval_options_def no_overrides_def)
  from category_retrieval_filters_and_truncates
         [of default_retrieval_options 1000000000 example_graph "''goal''" "[]" no_overrides]
  obtain res where
    res: "retrieveByCategory default_retrieval_options 1000000000 example_graph ''goal'' []
            no_overrides = Inr res"
    and each: "\<forall>e \<in> set (category_result.entities res).
          \<exists>obs. entity.observations e = Some obs
             \<and> length obs \<le> retrieval_options.maxObservationsPerEntity
                               (merge_options default_retrieval_options no_overrides)
             \<and> (\<forall>ob \<in> set obs.
                   observation.category ob = Some ''goal''
                   \<and> \<not> (\<exists>c. confidence ob = Some c
                              \<and> c < retrieval_options.minConfidence
                                      (merge_options default_retrieval_options no_overrides))
                   \<and> (confidence ob = None
                        \<longrightarrow> retrieval_options.minConfidence
                              (merge_options default_retrieval_options no_overrides) \<le> 0))"
    by blast
  from each have "list_all (\<lambda>e. \<exists>obs. entity.observations e = Some obs \<and> length obs \<le> 5)
               (category_result.entities res)"
    unfolding five list_all_iff by blast
  with res run show ?thesis by blast
qed


section \<open>Failures at the operation boundary\<close>

lemma try_catch_Inl: "body = Inl e \<Longrightarrow> try_catch body handler = handler e"
  by (simp add: try_catch_def)

lemma try_catch_returns:
  "(\<And>e. \<exists>r. handler e = Inr r) \<Longrightarrow> \<exists>r. try_catch body handler = Inr r"
  by (cases body) (simp_all add: try_catch_def)

text \<open>
  C9. No operation raises: for every input each of the six operations returns a value.
  When the body of \<open>compressObservations\<close> or of \<open>temporalCompression\<close> fails, the
  result is the empty list; when the body of a retrieval operation fails, the result
  has no entities and no relations and carries the message of the failure in its
  \<open>error\<close> field.
\<close>

theorem failures_give_degraded_results:
  "(\<exists>r. compressObservations eng now items = Inr r)
   \<and> (\<forall>e. compress_groups eng (groupObservations eng now items) [] = Inl e
          \<longrightarrow> compressObservations eng now items = Inr [])
   \<and> (\<exists>r. temporalCompression eng env now tobs days = Inr r)
   \<and> (\<forall>e. (case groupByTimeWindow env tobs days of
               Inl e \<Rightarrow> Inl e
             | Inr timeWindows \<Rightarrow> temporal_loop eng now timeWindows []) = Inl e
          \<longrightarrow> temporalCompression eng env now tobs days = Inr [])
   \<and> (\<exists>r. retrieveRelevantMemories stringify opts now kg ctx targets ov = Inr r)
   \<and> (\<forall>e. retrieveRelevantMemories_body stringify opts now kg ctx targets ov = Inl e
          \<longrightarrow> retrieveRelevantMemories stringify opts now kg ctx targets ov
              = Inr \<lparr>retrieval_result.entities = [], retrieval_result.relations = [],
                     context_info = None, retrieval_result.error = Some (message e)\<rparr>)
   \<and> (\<exists>r. retrieveByCategory opts now kg cat names ov = Inr r)
   \<and> (\<forall>e. retrieveByCategory_body opts now kg cat names ov = Inl e
          \<longrightarrow> retrieveByCategory opts now kg cat names ov
              = Inr \<lparr>category_result.category = cat, category_result.entities = [],
                     category_result.error = Some (message e)\<rparr>)
   \<and> (\<exists>r. retrieveCriticalMemories kg names = Inr r)
   \<and> (\<forall>e. retrieveCriticalMemories_body kg names = Inl e
          \<longrightarrow> retrieveCriticalMemories kg names
              = Inr \<lparr>critical_result.entities = [], critical_result.relations = [],
                     critical_result.error = Some (message e)\<rparr>)
   \<and> (\<exists>r. retrieveByTimeRange now kg tr names = Inr r)
   \<and> (\<forall>e. retrieveByTimeRange_body now kg tr names = Inl e
          \<longrightarrow> retrieveByTimeRange now kg tr names
              = Inr \<lparr>timeRange = tr, time_range_result.entities = [],
                     time_range_result.relations = [],
                     time_range_result.error = Some (message e)\<rparr>)"
proof (intro conjI allI impI)
  show "\<exists>r. compressObservations eng now items = Inr r"
    unfolding compressObservations_def by (simp add: try_catch_returns)
  show "compressObservations eng now items = Inr []"
    if "compress_groups eng (groupObservations eng now items) [] = Inl e" for e
    unfolding compressObservations_def by (simp add: try_catch_Inl [OF that])
  show "\<exists>r. temporalCompression eng env now tobs days = Inr r"
    unfolding temporalCompression_def by (simp add: try_catch_returns)
  show "temporalCompression eng env now tobs days = Inr []"
    if "(case groupByTimeWindow env tobs days of
               Inl e \<Rightarrow> Inl e
             | Inr timeWindows \<Rightarrow> temporal_loop eng now timeWindows []) = Inl e" for e
    unfolding temporalCompression_def by (simp add: try_catch_Inl [OF that])
  show "\<exists>r. retrieveRelevantMemories stringify opts now kg ctx targets ov = Inr r"
    unfolding retrieveRelevantMemories_def by (simp add: try_catch_returns)
  show "retrieveRelevantMemories stringify opts now kg ctx targets ov
              = Inr \<lparr>retrieval_result.entities = [], retrieval_result.relations = [],
                     context_info = None, retrieval_result.error = Some (message e)\<rparr>"
    if "retrieveRelevantMemories_body stringify opts now kg ctx targets ov = Inl e" for e
    unfolding retrieveRelevantMemories_def by (simp add: try_catch_Inl [OF that])
  show "\<exists>r. retrieveByCategory opts now kg cat names ov = Inr r"
    unfolding retrieveByCategory_def by (simp add: try_catch_returns)
  show "retrieveByCategory opts now kg cat names ov
              = Inr \<lparr>category_result.category = cat, category_result.entities = [],
                     category_result.error = Some (message e)\<rparr>"
    if "retrieveByCategory_body opts now kg cat names ov = Inl e" for e
    unfolding retrieveByCategory_def by (simp add: try_catch_Inl [OF that])
  show "\<exists>r. retrieveCriticalMemories kg names = Inr r"
    unfolding retrieveCriticalMemories_def by (simp add: try_catch_returns)
  show "retrieveCriticalMemories kg names
              = Inr \<lparr>critical_result.entities = [], critical_result.relations = [],
                     critical_result.error = Some (message e)\<rparr>"
    if "retrieveCriticalMemories_body kg names = Inl e" for e
    unfolding retrieveCriticalMemories_def by (simp add: try_catch_Inl [OF that])
  show "\<exists>r. retrieveByTimeRange now kg tr names = Inr r"
    unfolding retrieveByTimeRange_def by (simp add: try_catch_returns)
  show "retrieveByTimeRange now kg tr names
              = Inr \<lparr>timeRange = tr, time_range_result.entities = [],
                     time_range_result.relations = [],
                     time_range_result.error = Some (message e)\<rparr>"
    if "retrieveByTimeRange_body now kg tr names = Inl e" for e
    unfolding retrieveByTimeRange_def by (simp add: try_catch_Inl [OF that])
qed

theorem failures_give_degraded_results_witness:
  "compress_groups (example_engine 2 (2 / 10))
     (groupObservations (example_engine 2 (2 / 10)) 1000000000
        [example_pending (example_observation ''User asked about memory'' 913600000 5),
         example_pending ((example_observation ''User asked again'' 913600001 5)\<lparr>content := None\<rparr>)])
     [] = Inl (TypeError ''contentB.toLowerCase'')
   \<and> compressObservations (example_engine 2 (2 / 10)) 1000000000
        [example_pending (example_observation ''User asked about memory'' 913600000 5),
         example_pending ((example_observation ''User asked again'' 913600001 5)\<lparr>content := None\<rparr>)]
     = Inr []
   \<and> groupByTimeWindow example_date_env
        [observation.extend (example_observation ''User asked about memory'' 913600000 5)
           \<lparr>temporal_observation.entityName = ''User'', temporal_observation.entityType = None\<rparr>] 0
     = Inl (RangeError ''Invalid time value'')
   \<and> temporalCompression (example_engine 2 (2 / 10)) example_date_env 1000000000
        [observation.extend (example_observation ''User asked about memory'' 913600000 5)
           \<lparr>temporal_observation.entityName = ''User'', temporal_observation.entityType = None\<rparr>] 0
     = Inr []
   \<and> retrieveRelevantMemories_body example_stringify default_retrieval_options 1000000000
        failing_graph (ContextString ''memory system'') [] no_overrides
     = Inl (GraphError ''unavailable'')
   \<and> retrieveRelevantMemories example_stringify default_retrieval_options 1000000000
        failing_graph (ContextString ''memory system'') [] no_overrides
     = Inr \<lparr>retrieval_result.entities = [], retrieval_result.relations = [],
            context_info = None, retrieval_result.error = Some ''unavailable''\<rparr>
   \<and> retrieveCriticalMemories_body failing_graph [] = Inl (GraphError ''unavailable'')
   \<and> retrieveCriticalMemories failing_graph []
     = Inr \<lparr>critical_result.entities = [], critical_result.relations = [],
            critical_result.error = Some ''unavailable''\<rparr>"
proof -
  let ?eng = "example_engine 2 (2 / 10)"
  let ?items = "[example_pending (example_observation ''User asked about memory'' 913600000 5),
         example_pending ((example_observation ''User asked again'' 913600001 5)\<lparr>content := None\<rparr>)]"
  let ?tobs = "[observation.extend (example_observation ''User asked about memory'' 913600000 5)
           \<lparr>temporal_observation.entityName = ''User'', temporal_observation.entityType = None\<rparr>]"
  note inst = failures_give_degraded_results
    [of ?eng 1000000000 ?items example_date_env ?tobs 0 example_stringify
        default_retrieval_options failing_graph "ContextString ''memory system''" "[]"
        no_overrides "''goal''" "[]" "\<lparr>startDate = None, endDate = None\<rparr>"]
  have c: "compress_groups ?eng (groupObservations ?eng 1000000000 ?items) []
             = Inl (TypeError ''contentB.toLowerCase'')"
    by code_simp
  have t: "groupByTimeWindow example_date_env ?tobs 0 = Inl (RangeError ''Invalid time value'')"
    by code_simp
  have r: "retrieveRelevantMemories_body example_stringify default_retrieval_options 1000000000
        failing_graph (ContextString ''memory system'') [] no_overrides
     = Inl (GraphError ''unavailable'')"
    by code_simp
  have k: "retrieveCriticalMemories_body failing_graph [] = Inl (GraphError ''unavailable'')"
    by code_simp
  from inst c have c': "compressObservations ?eng 1000000000 ?items = Inr []" by blast
  from t have "(case groupByTimeWindow example_date_env ?tobs 0 of
               Inl e \<Rightarrow> Inl e
             | Inr timeWindows \<Rightarrow> temporal_loop ?eng 1000000000 timeWindows [])
            = Inl (RangeError ''Invalid time value'')"
    by simp
  with inst have t': "temporalCompression ?eng example_date_env 1000000000 ?tobs 0 = Inr []"
    by blast
  from inst r have r': "retrieveRelevantMemories example_stringify default_retrieval_options 1000000000
        failing_graph (ContextString ''memory system'') [] no_overrides
     = Inr \<lparr>retrieval_result.entities = [], retrieval_result.relations = [],
            context_info = None, retrieval_result.error = Some (message (GraphError ''unavailable''))\<rparr>"
    by blast
  from inst k have k': "retrieveCriticalMemories failing_graph []
     = Inr \<lparr>critical_result.entities = [], critical_result.relations = [],
            critical_result.error = Some (message (GraphError ''unavailable''))\<rparr>"
    by blast
  from c c' t t' r r' k k' show ?thesis by simp
qed



end
